theory Spec2Isabelle
  imports Main "HOL-Library.Word" "HOL-Library.Sublist" "HOL-Library.Multiset"
begin

section \<open>Wire-protocol data model (internal/models)\<close>

text \<open>
  The Go structs of \<open>internal/models/models.go\<close> become records. Go strings are
  byte strings, modelled as \<open>string\<close> (a list of 8-bit characters). Field names carry
  a short prefix of the struct they belong to, since record fields share one name space.
\<close>

text \<open>A dynamically typed JSON document (\<open>map[string]interface{}\<close>, \<open>interface{}\<close>).\<close>

datatype json =
    JNull
  | JBool bool
  | JNum int
  | JStr string
  | JArr "json list"
  | JObj "(string \<times> json) list"

record ContentItem =
  ci_Type :: string
  ci_Text :: string
  ci_ImageURL :: string
  ci_Data :: string

record OutputItem =
  oi_Type :: string
  oi_ID :: string
  oi_Role :: string
  oi_Content :: "ContentItem list"
  oi_CallID :: string
  oi_Name :: string
  oi_Arguments :: string
  oi_Status :: string

record UsageInfo =
  ui_InputTokens :: int
  ui_OutputTokens :: int
  ui_TotalTokens :: int

record ResponsesResponse =
  rr_ID :: string
  rr_Object :: string
  rr_CreatedAt :: int
  rr_Status :: string
  rr_Model :: string
  rr_Output :: "OutputItem list"
  rr_Usage :: UsageInfo

record ToolCallFunction =
  fn_Name :: string
  fn_Arguments :: string

record ToolCall =
  tc_ID :: string
  tc_Type :: string
  tc_Function :: ToolCallFunction

record ImageURL =
  iu_URL :: string

record ChatContentPart =
  cp_Type :: string
  cp_Text :: string
  cp_ImageURL :: ImageURL

text \<open>
  \<open>ChatMessage.Content\<close> is an \<open>interface{}\<close>: nil, a string, a part list built by the
  request translator, or any other decoded JSON value.
\<close>

datatype chat_content =
    ContentNil
  | ContentString string
  | ContentParts "ChatContentPart list"
  | ContentOther json

record ChatMessage =
  cm_Role :: string
  cm_Content :: chat_content
  cm_Name :: string
  cm_ToolCalls :: "ToolCall list"
  cm_ToolCallID :: string

record ChatChoice =
  cc_Index :: int
  cc_Message :: ChatMessage
  cc_FinishReason :: string

record ChatUsage =
  cu_PromptTokens :: int
  cu_CompletionTokens :: int
  cu_TotalTokens :: int

record ChatCompletionResponse =
  cr_ID :: string
  cr_Object :: string
  cr_Created :: int
  cr_Model :: string
  cr_Choices :: "ChatChoice list"
  cr_Usage :: ChatUsage

section \<open>Non-streaming response translation (converter.ConvertResponse)\<close>

text \<open>The zero value of \<open>models.OutputItem\<close> and of \<open>models.UsageInfo\<close>.\<close>

definition zero_OutputItem :: OutputItem where
  "zero_OutputItem =
     \<lparr>oi_Type = [], oi_ID = [], oi_Role = [], oi_Content = [], oi_CallID = [],
      oi_Name = [], oi_Arguments = [], oi_Status = []\<rparr>"

definition zero_UsageInfo :: UsageInfo where
  "zero_UsageInfo = \<lparr>ui_InputTokens = 0, ui_OutputTokens = 0, ui_TotalTokens = 0\<rparr>"

text \<open>The \<open>switch v := choice.Message.Content.(type)\<close> with its single \<open>string\<close> case.\<close>

definition response_content :: "chat_content \<Rightarrow> ContentItem list" where
  "response_content c =
     (case c of
        ContentString v \<Rightarrow>
          (if v \<noteq> [] then [\<lparr>ci_Type = ''output_text'', ci_Text = v, ci_ImageURL = [], ci_Data = []\<rparr>]
           else [])
      | _ \<Rightarrow> [])"

definition toolItem :: "string \<Rightarrow> ToolCall \<Rightarrow> OutputItem" where
  "toolItem requestID tc =
     zero_OutputItem
       \<lparr>oi_Type := ''function_call'',
        oi_ID := ''fc-'' @ requestID,
        oi_CallID := tc_ID tc,
        oi_Name := fn_Name (tc_Function tc),
        oi_Arguments := fn_Arguments (tc_Function tc),
        oi_Status := ''completed''\<rparr>"

text \<open>The loop \<open>for _, tc := range choice.Message.ToolCalls\<close>, appending to the output.\<close>

fun append_tool_items :: "string \<Rightarrow> OutputItem list \<Rightarrow> ToolCall list \<Rightarrow> OutputItem list" where
  "append_tool_items requestID out [] = out"
| "append_tool_items requestID out (tc # tcs) =
     append_tool_items requestID (out @ [toolItem requestID tc]) tcs"

definition messageItem :: "string \<Rightarrow> ChatChoice \<Rightarrow> OutputItem" where
  "messageItem requestID choice =
     zero_OutputItem
       \<lparr>oi_Type := ''message'',
        oi_ID := ''msg-'' @ requestID,
        oi_Role := cm_Role (cc_Message choice),
        oi_Content := response_content (cm_Content (cc_Message choice))\<rparr>"

definition ConvertResponse :: "ChatCompletionResponse \<Rightarrow> string \<Rightarrow> ResponsesResponse" where
  "ConvertResponse resp requestID =
     (let response =
            \<lparr>rr_ID = ''resp-'' @ requestID,
             rr_Object = ''response'',
             rr_CreatedAt = cr_Created resp,
             rr_Status = ''completed'',
             rr_Model = cr_Model resp,
             rr_Output = [],
             rr_Usage = zero_UsageInfo\<rparr>;
          response1 =
            (case cr_Choices resp of
               [] \<Rightarrow> response
             | choice # _ \<Rightarrow>
                 (let outputItem = messageItem requestID choice;
                      out1 = (if length (cm_ToolCalls (cc_Message choice)) > 0
                              then append_tool_items requestID (rr_Output response)
                                     (cm_ToolCalls (cc_Message choice))
                              else rr_Output response)
                  in response\<lparr>rr_Output := out1 @ [outputItem]\<rparr>))
      in if cu_TotalTokens (cr_Usage resp) > 0
         then response1
                \<lparr>rr_Usage :=
                   \<lparr>ui_InputTokens = cu_PromptTokens (cr_Usage resp),
                    ui_OutputTokens = cu_CompletionTokens (cr_Usage resp),
                    ui_TotalTokens = cu_TotalTokens (cr_Usage resp)\<rparr>\<rparr>
         else response1)"

text \<open>A concrete response, used to instantiate the theorems below.\<close>

definition example_tool_call :: ToolCall where
  "example_tool_call =
     \<lparr>tc_ID = ''call_1'', tc_Type = ''function'',
      tc_Function = \<lparr>fn_Name = ''get_weather'', fn_Arguments = ''{}''\<rparr>\<rparr>"

definition example_response :: "chat_content \<Rightarrow> ToolCall list \<Rightarrow> ChatCompletionResponse" where
  "example_response c tcs =
     \<lparr>cr_ID = ''chatcmpl-1'', cr_Object = ''chat.completion'', cr_Created = 1700000000,
      cr_Model = ''m'',
      cr_Choices =
        [\<lparr>cc_Index = 0,
          cc_Message = \<lparr>cm_Role = ''assistant'', cm_Content = c, cm_Name = [],
                        cm_ToolCalls = tcs, cm_ToolCallID = []\<rparr>,
          cc_FinishReason = ''stop''\<rparr>],
      cr_Usage = \<lparr>cu_PromptTokens = 3, cu_CompletionTokens = 4, cu_TotalTokens = 7\<rparr>\<rparr>"

section \<open>Request translation (converter.ConvertRequest)\<close>

text \<open>\<open>float64\<close> values are only copied, never computed with.\<close>

typedecl float64

record InputItem =
  ii_Type :: string
  ii_ID :: string
  ii_Role :: string
  ii_Content :: "ContentItem list"
  ii_CallID :: string
  ii_Name :: string
  ii_Arguments :: string
  ii_Output :: string
  ii_Status :: string

text \<open>\<open>Parameters\<close> is a \<open>map[string]interface{}\<close>: \<open>None\<close> is the nil map.\<close>

record FunctionDef =
  fd_Name :: string
  fd_Description :: string
  fd_Parameters :: "(string \<times> json) list option"
  fd_Strict :: "bool option"

record Tool =
  tl_Type :: string
  tl_Function :: FunctionDef

record ChatTool =
  ct_Type :: string
  ct_Function :: FunctionDef

record ResponsesRequest =
  rq_Model :: string
  rq_Instructions :: string
  rq_Input :: "InputItem list"
  rq_Tools :: "Tool list"
  rq_Stream :: bool
  rq_Temperature :: "float64 option"
  rq_MaxTokens :: int
  rq_PreviousResponseID :: string
  rq_Truncation :: string
  rq_Metadata :: "(string \<times> json) list option"

record ChatCompletionRequest =
  cq_Model :: string
  cq_Messages :: "ChatMessage list"
  cq_Tools :: "ChatTool list"
  cq_Stream :: bool
  cq_Temperature :: "float64 option"
  cq_MaxTokens :: int

text \<open>
  The two descriptions of the injected tool are Chinese text; they are given as the
  UTF-8 bytes of the source literals.
\<close>

definition web_search_description :: string where
  "web_search_description = [
      CHR 0xE6, CHR 0x90, CHR 0x9C, CHR 0xE7, CHR 0xB4, CHR 0xA2, CHR 0xE4, CHR 0xBA,
      CHR 0x92, CHR 0xE8, CHR 0x81, CHR 0x94, CHR 0xE7, CHR 0xBD, CHR 0x91, CHR 0xE8,
      CHR 0x8E, CHR 0xB7, CHR 0xE5, CHR 0x8F, CHR 0x96, CHR 0xE5, CHR 0xAE, CHR 0x9E,
      CHR 0xE6, CHR 0x97, CHR 0xB6, CHR 0xE4, CHR 0xBF, CHR 0xA1, CHR 0xE6, CHR 0x81,
      CHR 0xAF, CHR 0xEF, CHR 0xBC, CHR 0x8C, CHR 0xE5, CHR 0xA6, CHR 0x82, CHR 0xE6,
      CHR 0x96, CHR 0xB0, CHR 0xE9, CHR 0x97, CHR 0xBB, CHR 0xE3, CHR 0x80, CHR 0x81,
      CHR 0xE5, CHR 0xA4, CHR 0xA9, CHR 0xE6, CHR 0xB0, CHR 0x94, CHR 0xE3, CHR 0x80,
      CHR 0x81, CHR 0xE8, CHR 0x82, CHR 0xA1, CHR 0xE4, CHR 0xBB, CHR 0xB7, CHR 0xE7,
      CHR 0xAD, CHR 0x89, CHR 0xE3, CHR 0x80, CHR 0x82, CHR 0xE5, CHR 0xBD, CHR 0x93,
      CHR 0xE7, CHR 0x94, CHR 0xA8, CHR 0xE6, CHR 0x88, CHR 0xB7, CHR 0xE8, CHR 0xAF,
      CHR 0xA2, CHR 0xE9, CHR 0x97, CHR 0xAE, CHR 0xE5, CHR 0xAE, CHR 0x9E, CHR 0xE6,
      CHR 0x97, CHR 0xB6, CHR 0xE4, CHR 0xBF, CHR 0xA1, CHR 0xE6, CHR 0x81, CHR 0xAF,
      CHR 0xE6, CHR 0x97, CHR 0xB6, CHR 0xE4, CHR 0xBD, CHR 0xBF, CHR 0xE7, CHR 0x94,
      CHR 0xA8, CHR 0xE6, CHR 0xAD, CHR 0xA4, CHR 0xE5, CHR 0xB7, CHR 0xA5, CHR 0xE5,
      CHR 0x85, CHR 0xB7, CHR 0xE3, CHR 0x80, CHR 0x82]"

definition query_description :: string where
  "query_description = [
      CHR 0xE6, CHR 0x90, CHR 0x9C, CHR 0xE7, CHR 0xB4, CHR 0xA2, CHR 0xE5, CHR 0x85,
      CHR 0xB3, CHR 0xE9, CHR 0x94, CHR 0xAE, CHR 0xE8, CHR 0xAF, CHR 0x8D, CHR 0xE6,
      CHR 0x88, CHR 0x96, CHR 0xE9, CHR 0x97, CHR 0xAE, CHR 0xE9, CHR 0xA2, CHR 0x98]"

definition WebSearchFunctionTool :: ChatTool where
  "WebSearchFunctionTool =
     \<lparr>ct_Type = ''function'',
      ct_Function =
        \<lparr>fd_Name = ''web_search'',
         fd_Description = web_search_description,
         fd_Parameters = Some
           [(''type'', JStr ''object''),
            (''properties'', JObj
               [(''query'', JObj
                   [(''type'', JStr ''string''),
                    (''description'', JStr query_description)])]),
            (''required'', JArr [JStr ''query''])],
         fd_Strict = None\<rparr>\<rparr>"

definition zero_ChatMessage :: ChatMessage where
  "zero_ChatMessage =
     \<lparr>cm_Role = [], cm_Content = ContentNil, cm_Name = [], cm_ToolCalls = [],
      cm_ToolCallID = []\<rparr>"

text \<open>
  The loop over \<open>item.Content\<close> in \<open>convertMessageItem\<close>: text and image parts are
  appended, every other content type is skipped.
\<close>

fun convert_parts :: "ChatContentPart list \<Rightarrow> ContentItem list \<Rightarrow> ChatContentPart list" where
  "convert_parts parts [] = parts"
| "convert_parts parts (c # cs) =
     (if ci_Type c = ''input_text'' then
        convert_parts
          (parts @ [\<lparr>cp_Type = ''text'', cp_Text = ci_Text c, cp_ImageURL = \<lparr>iu_URL = []\<rparr>\<rparr>]) cs
      else if ci_Type c = ''input_image'' then
        (let part = \<lparr>cp_Type = ''image_url'', cp_Text = [],
                     cp_ImageURL = \<lparr>iu_URL = ci_ImageURL c\<rparr>\<rparr>;
             part1 = (if ci_ImageURL c = [] \<and> ci_Data c \<noteq> []
                      then part\<lparr>cp_ImageURL := \<lparr>iu_URL = ci_Data c\<rparr>\<rparr> else part)
         in convert_parts (parts @ [part1]) cs)
      else convert_parts parts cs)"

text \<open>The functions return \<open>*models.ChatMessage\<close>; \<open>None\<close> is the nil pointer.\<close>

definition convertMessageItem :: "InputItem \<Rightarrow> bool \<Rightarrow> ChatMessage option" where
  "convertMessageItem item supportsDeveloperRole =
     (if ii_Role item = [] then None
      else
        (let role = (if ii_Role item = ''developer'' \<and> \<not> supportsDeveloperRole
                     then ''user'' else ii_Role item);
             msg = zero_ChatMessage\<lparr>cm_Role := role\<rparr>
         in Some
           (if length (ii_Content item) > 0 then
              (if length (ii_Content item) = 1 \<and> ci_Type (hd (ii_Content item)) = ''input_text''
               then msg\<lparr>cm_Content := ContentString (ci_Text (hd (ii_Content item)))\<rparr>
               else
                 (let parts = convert_parts [] (ii_Content item)
                  in if length parts = 1 \<and> cp_Type (hd parts) = ''text''
                     then msg\<lparr>cm_Content := ContentString (cp_Text (hd parts))\<rparr>
                     else if length parts > 0
                     then msg\<lparr>cm_Content := ContentParts parts\<rparr>
                     else msg))
            else msg)))"

definition convertFunctionCallItem :: "InputItem \<Rightarrow> ChatMessage option" where
  "convertFunctionCallItem item =
     Some (zero_ChatMessage
       \<lparr>cm_Role := ''assistant'',
        cm_ToolCalls :=
          [\<lparr>tc_ID = ii_CallID item, tc_Type = ''function'',
            tc_Function = \<lparr>fn_Name = ii_Name item, fn_Arguments = ii_Arguments item\<rparr>\<rparr>]\<rparr>)"

definition convertFunctionCallOutputItem :: "InputItem \<Rightarrow> ChatMessage option" where
  "convertFunctionCallOutputItem item =
     Some (zero_ChatMessage
       \<lparr>cm_Role := ''tool'',
        cm_Content := ContentString (ii_Output item),
        cm_ToolCallID := ii_CallID item\<rparr>)"

definition convertInputItemToMessage :: "InputItem \<Rightarrow> bool \<Rightarrow> ChatMessage option" where
  "convertInputItemToMessage item supportsDeveloperRole =
     (if ii_Type item = ''message'' then convertMessageItem item supportsDeveloperRole
      else if ii_Type item = ''function_call'' then convertFunctionCallItem item
      else if ii_Type item = ''function_call_output'' then convertFunctionCallOutputItem item
      else None)"

text \<open>The search for a system message, leaving the loop at the first one.\<close>

fun hasSystemMsg :: "ChatMessage list \<Rightarrow> bool" where
  "hasSystemMsg [] = False"
| "hasSystemMsg (m # ms) = (if cm_Role m = ''system'' then True else hasSystemMsg ms)"

text \<open>\<open>for _, item := range req.Input\<close>: a converted item is appended, nil is skipped.\<close>

fun append_input_items :: "bool \<Rightarrow> ChatMessage list \<Rightarrow> InputItem list \<Rightarrow> ChatMessage list" where
  "append_input_items sd messages [] = messages"
| "append_input_items sd messages (item # items) =
     (case convertInputItemToMessage item sd of
        Some msg \<Rightarrow> append_input_items sd (messages @ [msg]) items
      | None \<Rightarrow> append_input_items sd messages items)"

text \<open>
  \<open>for _, tool := range req.Tools\<close>: the state is the tool list built so far and the
  flag \<open>hasWebSearchTool\<close>.
\<close>

fun convert_tools :: "ChatTool list \<times> bool \<Rightarrow> Tool list \<Rightarrow> ChatTool list \<times> bool" where
  "convert_tools (tools, hasWebSearchTool) [] = (tools, hasWebSearchTool)"
| "convert_tools (tools, hasWebSearchTool) (tool # rest) =
     (if tl_Type tool = ''web_search'' then
        convert_tools (tools @ [WebSearchFunctionTool], True) rest
      else if tl_Type tool = ''function'' \<and> fd_Name (tl_Function tool) \<noteq> [] then
        convert_tools
          (tools @ [\<lparr>ct_Type = tl_Type tool, ct_Function = tl_Function tool\<rparr>], hasWebSearchTool)
          rest
      else convert_tools (tools, hasWebSearchTool) rest)"

definition system_message :: "string \<Rightarrow> ChatMessage" where
  "system_message instructions =
     zero_ChatMessage\<lparr>cm_Role := ''system'', cm_Content := ContentString instructions\<rparr>"

definition ConvertRequest ::
  "ResponsesRequest \<Rightarrow> (string \<rightharpoonup> string) \<Rightarrow> ChatMessage list \<Rightarrow> bool
     \<Rightarrow> ChatCompletionRequest \<times> bool" where
  "ConvertRequest req modelMapping history supportsDeveloperRole =
     (let model = (case modelMapping (rq_Model req) of
                     Some mapped \<Rightarrow> mapped
                   | None \<Rightarrow> rq_Model req);
          messages0 = (if length history > 0 then history else []);
          messages1 =
            (if rq_Instructions req \<noteq> [] then
               (if \<not> hasSystemMsg messages0
                then [system_message (rq_Instructions req)] @ messages0
                else messages0)
             else messages0);
          messages2 = append_input_items supportsDeveloperRole messages1 (rq_Input req);
          (tools, hasWebSearchTool) = convert_tools ([], False) (rq_Tools req)
      in (\<lparr>cq_Model = model,
           cq_Messages = messages2,
           cq_Tools = tools,
           cq_Stream = rq_Stream req,
           cq_Temperature = rq_Temperature req,
           cq_MaxTokens = (if rq_MaxTokens req > 0 then rq_MaxTokens req else 0)\<rparr>,
          hasWebSearchTool))"

text \<open>Concrete requests, used to instantiate the theorems below.\<close>

definition example_user_item :: InputItem where
  "example_user_item =
     \<lparr>ii_Type = ''message'', ii_ID = [], ii_Role = ''user'',
      ii_Content = [\<lparr>ci_Type = ''input_text'', ci_Text = ''hello'', ci_ImageURL = [], ci_Data = []\<rparr>],
      ii_CallID = [], ii_Name = [], ii_Arguments = [], ii_Output = [], ii_Status = []\<rparr>"

definition example_function_tool :: Tool where
  "example_function_tool =
     \<lparr>tl_Type = ''function'',
      tl_Function = \<lparr>fd_Name = ''get_weather'', fd_Description = ''weather'',
                      fd_Parameters = Some [(''type'', JStr ''object'')], fd_Strict = Some True\<rparr>\<rparr>"

definition example_tool_of_type :: "string \<Rightarrow> Tool" where
  "example_tool_of_type t =
     \<lparr>tl_Type = t,
      tl_Function = \<lparr>fd_Name = [], fd_Description = [], fd_Parameters = None, fd_Strict = None\<rparr>\<rparr>"

definition example_request :: "string \<Rightarrow> Tool list \<Rightarrow> ResponsesRequest" where
  "example_request instructions tools =
     \<lparr>rq_Model = ''gpt-x'', rq_Instructions = instructions, rq_Input = [example_user_item],
      rq_Tools = tools, rq_Stream = False, rq_Temperature = None, rq_MaxTokens = 0,
      rq_PreviousResponseID = [], rq_Truncation = [], rq_Metadata = None\<rparr>"

definition example_history :: "string \<Rightarrow> ChatMessage list" where
  "example_history role =
     [zero_ChatMessage\<lparr>cm_Role := role, cm_Content := ContentString ''earlier''\<rparr>]"

section \<open>Streaming translation (converter.HandleStreamingResponse)\<close>

text \<open>Go's \<open>int\<close> is a 64-bit two's complement integer; an \<open>error\<close> is its message.\<close>

type_synonym go_int = "64 word"
type_synonym error = string

record ChatDelta =
  cd_Role :: string
  cd_Content :: string
  cd_ToolCalls :: "ToolCall list"

record ChatChunkChoice =
  ck_Index :: int
  ck_Delta :: ChatDelta
  ck_FinishReason :: string

record ChatCompletionChunk =
  ch_ID :: string
  ch_Object :: string
  ch_Created :: int
  ch_Model :: string
  ch_Choices :: "ChatChunkChoice list"

record StreamResult =
  sr_OutputText :: string
  sr_ToolCalls :: "OutputItem list"

text \<open>
  The events written through \<open>SSEWriter.WriteEvent\<close>, each with the fields the code sets
  (\<open>OutputIndex\<close> of the item events is never set): \<open>response.created\<close> with id and
  status, \<open>response.output_item.added\<close>, \<open>response.output_text.delta\<close> with delta and
  output index, \<open>response.output_item.done\<close>, and \<open>response.completed\<close> with id and
  status.
\<close>

datatype event =
    ResponseCreated string string
  | OutputItemAdded OutputItem
  | OutputTextDelta string int
  | OutputItemDone OutputItem
  | ResponseCompleted string string

text \<open>Log entries at level warn and error (debug logging is left out).\<close>

datatype scan_error = ErrTooLong | ReadFailed error

datatype log_entry =
    LogWarn string error string
  | LogError string scan_error

subsection \<open>The line scanner\<close>

text \<open>
  The body is read with a \<open>bufio.Scanner\<close> whose buffer is capped by
  \<open>scanner.Buffer(make([]byte, 64*1024), 1024*1024)\<close>. Its behaviour is taken from the
  library: it hands out the lines of the body without their end-of-line marker (a
  trailing carriage return is dropped); a line of at least \<open>1024*1024\<close> bytes cannot be
  buffered and stops the scan with \<open>ErrTooLong\<close>; a failure of the underlying reader is
  recorded at once, but the lines the scanner already holds (lines read together with the
  failure, a last line without end-of-line marker) are still handed out before \<open>Scan\<close>
  returns false. \<open>scanner.Err()\<close> returns the recorded failure from then on.

  The body is given as its lines; the failure of the transport after them comes with the
  number of trailing lines that are handed out after the failure has been recorded. A
  scanned line is paired with what \<open>scanner.Err()\<close> returns while that line is the
  current one.
\<close>

definition max_token_size :: nat where
  "max_token_size = 1024 * 1024"

definition dropCR :: "string \<Rightarrow> string" where
  "dropCR l = (if l \<noteq> [] \<and> last l = CHR 0x0D then butlast l else l)"

type_synonym scanned_line = "string \<times> scan_error option"

text \<open>
  \<open>n\<close> lines are handed out before the failure is recorded; the lines after them were
  held by the scanner, within its buffer.
\<close>

fun scan_from ::
  "scan_error option \<Rightarrow> nat \<Rightarrow> string list \<Rightarrow> scanned_line list \<times> scan_error option" where
  "scan_from failure n [] = ([], failure)"
| "scan_from failure n (l # ls) =
     (if n > 0 then
        (if length l \<ge> max_token_size then ([], Some ErrTooLong)
         else ((dropCR l, None) # fst (scan_from failure (n - 1) ls),
               snd (scan_from failure (n - 1) ls)))
      else ((dropCR l, failure) # fst (scan_from failure 0 ls),
            snd (scan_from failure 0 ls)))"

definition scan :: "string list \<Rightarrow> (error \<times> nat) option \<Rightarrow> scanned_line list \<times> scan_error option" where
  "scan body failure =
     (case failure of
        None \<Rightarrow> scan_from None (length body) body
      | Some (e, held) \<Rightarrow> scan_from (Some (ReadFailed e)) (length body - held) body)"

subsection \<open>Tool-call keys\<close>

text \<open>
  \<open>for _, c := range id\<close> visits the runes of the string: its UTF-8 decoding, where each
  byte that does not start a well-formed sequence yields U+FFFD.
\<close>

definition is_cont :: "nat \<Rightarrow> bool" where
  "is_cont b \<longleftrightarrow> 0x80 \<le> b \<and> b \<le> 0xBF"

fun runes :: "nat list \<Rightarrow> nat list" where
  "runes [] = []"
| "runes (b0 # bs) =
     (if b0 < 0x80 then b0 # runes bs
      else if 0xC2 \<le> b0 \<and> b0 \<le> 0xDF then
        (case bs of
           b1 # r1 \<Rightarrow>
             (if is_cont b1 then ((b0 mod 32) * 64 + b1 mod 64) # runes r1
              else 0xFFFD # runes bs)
         | _ \<Rightarrow> 0xFFFD # runes bs)
      else if 0xE0 \<le> b0 \<and> b0 \<le> 0xEF then
        (case bs of
           b1 # b2 # r2 \<Rightarrow>
             (if (if b0 = 0xE0 then 0xA0 else 0x80) \<le> b1
                 \<and> b1 \<le> (if b0 = 0xED then 0x9F else 0xBF) \<and> is_cont b2
              then ((b0 mod 16) * 4096 + (b1 mod 64) * 64 + b2 mod 64) # runes r2
              else 0xFFFD # runes bs)
         | _ \<Rightarrow> 0xFFFD # runes bs)
      else if 0xF0 \<le> b0 \<and> b0 \<le> 0xF4 then
        (case bs of
           b1 # b2 # b3 # r3 \<Rightarrow>
             (if (if b0 = 0xF0 then 0x90 else 0x80) \<le> b1
                 \<and> b1 \<le> (if b0 = 0xF4 then 0x8F else 0xBF) \<and> is_cont b2 \<and> is_cont b3
              then ((b0 mod 8) * 262144 + (b1 mod 64) * 4096 + (b2 mod 64) * 64 + b3 mod 64)
                     # runes r3
              else 0xFFFD # runes bs)
         | _ \<Rightarrow> 0xFFFD # runes bs)
      else 0xFFFD # runes bs)"

definition hashToolCallID :: "string \<Rightarrow> go_int" where
  "hashToolCallID ident =
     (let hash = foldl (\<lambda>hash c. hash * 31 + of_nat c) 0 (runes (map of_char ident))
      in if sint hash < 0 then - hash else hash)"

subsection \<open>Formatting with \<open>%d\<close>\<close>

function show_nat :: "nat \<Rightarrow> string" where
  "show_nat n =
     (if n < 10 then [char_of (48 + n)]
      else show_nat (n div 10) @ [char_of (48 + n mod 10)])"
  by pat_completeness auto
termination
  by (relation "measure id") auto

declare show_nat.simps [simp del]

definition show_int :: "int \<Rightarrow> string" where
  "show_int i = (if i < 0 then CHR ''-'' # show_nat (nat (- i)) else show_nat (nat i))"

subsection \<open>The state of one stream\<close>

text \<open>
  \<open>toolCalls\<close> is a \<open>map[int]*models.OutputItem\<close>. It is kept as an association list
  with distinct keys, a new key going to the end, so that the list also records the order
  in which the entries were created.
\<close>

record stream_state =
  ss_outputText :: string
  ss_currentToolID :: go_int
  ss_toolCalls :: "(go_int \<times> OutputItem) list"
  ss_messageItemAdded :: bool
  ss_events :: "event list"
  ss_log :: "log_entry list"

fun map_assign :: "'k \<Rightarrow> 'v \<Rightarrow> ('k \<times> 'v) list \<Rightarrow> ('k \<times> 'v) list" where
  "map_assign k v [] = [(k, v)]"
| "map_assign k v ((k', v') # m) =
     (if k' = k then (k, v) # m else (k', v') # map_assign k v m)"

text \<open>
  A \<open>range\<close> over a Go map visits every entry once, in an order the language leaves
  unspecified. The order is a parameter: a function that rearranges the entries.
\<close>

type_synonym range_order = "(go_int \<times> OutputItem) list \<Rightarrow> (go_int \<times> OutputItem) list"

definition is_range_order :: "range_order \<Rightarrow> bool" where
  "is_range_order R \<longleftrightarrow> (\<forall>m. mset (R m) = mset m)"

definition emit :: "event \<Rightarrow> stream_state \<Rightarrow> stream_state" where
  "emit e st = st\<lparr>ss_events := ss_events st @ [e]\<rparr>"

subsection \<open>One chunk\<close>

definition message_item_in_progress :: "string \<Rightarrow> OutputItem" where
  "message_item_in_progress responseID =
     zero_OutputItem
       \<lparr>oi_Type := ''message'', oi_ID := ''msg-'' @ responseID, oi_Role := ''assistant'',
        oi_Status := ''in_progress''\<rparr>"

text \<open>\<open>if delta.Content != ""\<close>: the text branch of the loop body.\<close>

definition handle_text :: "string \<Rightarrow> stream_state \<Rightarrow> string \<Rightarrow> stream_state" where
  "handle_text responseID st content =
     (if content \<noteq> [] then
        (let st1 = (if \<not> ss_messageItemAdded st
                    then emit (OutputItemAdded (message_item_in_progress responseID))
                           (st\<lparr>ss_messageItemAdded := True\<rparr>)
                    else st);
             st2 = st1\<lparr>ss_outputText := ss_outputText st1 @ content\<rparr>
         in emit (OutputTextDelta content 0) st2)
      else st)"

definition new_tool_item :: "string \<Rightarrow> go_int \<Rightarrow> ToolCall \<Rightarrow> OutputItem" where
  "new_tool_item responseID currentToolID tc =
     zero_OutputItem
       \<lparr>oi_Type := ''function_call'',
        oi_ID := ''fc-'' @ responseID @ ''-'' @ show_int (sint currentToolID),
        oi_CallID := tc_ID tc,
        oi_Status := ''in_progress''\<rparr>"

text \<open>The two updates through the pointer \<open>item\<close>: the name is replaced, the arguments grow.\<close>

definition update_tool_call :: "ToolCall \<Rightarrow> OutputItem \<Rightarrow> OutputItem" where
  "update_tool_call tc item =
     (let item1 = (if fn_Name (tc_Function tc) \<noteq> []
                   then item\<lparr>oi_Name := fn_Name (tc_Function tc)\<rparr> else item)
      in if fn_Arguments (tc_Function tc) \<noteq> []
         then item1\<lparr>oi_Arguments := oi_Arguments item1 @ fn_Arguments (tc_Function tc)\<rparr>
         else item1)"

text \<open>
  The body of \<open>for _, tc := range delta.ToolCalls\<close>. The entry is looked up under
  \<open>idx\<close>; a new entry is stored under \<open>currentToolID\<close>. The pointer \<open>item\<close> is the key
  of the entry it points to.
\<close>

definition handle_tool_call :: "string \<Rightarrow> stream_state \<Rightarrow> ToolCall \<Rightarrow> stream_state" where
  "handle_tool_call responseID st tc =
     (let idx = (if tc_ID tc \<noteq> [] \<and> length (tc_ID tc) > 0
                 then hashToolCallID (tc_ID tc) else ss_currentToolID st)
      in case map_of (ss_toolCalls st) idx of
           Some item \<Rightarrow>
             st\<lparr>ss_toolCalls := map_assign idx (update_tool_call tc item) (ss_toolCalls st)\<rparr>
         | None \<Rightarrow>
             (let item = new_tool_item responseID (ss_currentToolID st) tc;
                  slot = ss_currentToolID st;
                  st1 = st\<lparr>ss_toolCalls := map_assign slot item (ss_toolCalls st),
                           ss_currentToolID := ss_currentToolID st + 1\<rparr>;
                  st2 = emit (OutputItemAdded item) st1
              in st2\<lparr>ss_toolCalls :=
                       map_assign slot (update_tool_call tc item) (ss_toolCalls st2)\<rparr>))"

text \<open>
  The loop body for a data payload other than the sentinel. \<open>json.Unmarshal\<close> into a
  \<open>ChatCompletionChunk\<close> is the parameter \<open>decode\<close>.
\<close>

type_synonym chunk_decoder = "string \<Rightarrow> error + ChatCompletionChunk"

definition process_data ::
  "chunk_decoder \<Rightarrow> string \<Rightarrow> stream_state \<Rightarrow> string \<Rightarrow> stream_state" where
  "process_data decode responseID st data =
     (case decode data of
        Inl err \<Rightarrow> st\<lparr>ss_log := ss_log st @ [LogWarn ''Failed to parse chunk'' err data]\<rparr>
      | Inr chunk \<Rightarrow>
          (case ch_Choices chunk of
             [] \<Rightarrow> st
           | choice # _ \<Rightarrow>
               (let delta = ck_Delta choice;
                    st1 = handle_text responseID st (cd_Content delta)
                in foldl (handle_tool_call responseID) st1 (cd_ToolCalls delta))))"

subsection \<open>The sentinel\<close>

definition message_item_done :: "string \<Rightarrow> string \<Rightarrow> OutputItem" where
  "message_item_done responseID outputText =
     zero_OutputItem
       \<lparr>oi_Type := ''message'', oi_ID := ''msg-'' @ responseID, oi_Role := ''assistant'',
        oi_Content := [\<lparr>ci_Type = ''output_text'', ci_Text = outputText,
                        ci_ImageURL = [], ci_Data = []\<rparr>],
        oi_Status := ''completed''\<rparr>"

definition done_events :: "range_order \<Rightarrow> string \<Rightarrow> stream_state \<Rightarrow> event list" where
  "done_events R responseID st =
     map (\<lambda>(k, tc). OutputItemDone tc) (R (ss_toolCalls st))
     @ [OutputItemDone (message_item_done responseID (ss_outputText st)),
        ResponseCompleted (''resp-'' @ responseID) ''completed'']"

definition handle_done :: "range_order \<Rightarrow> string \<Rightarrow> stream_state \<Rightarrow> stream_state" where
  "handle_done R responseID st =
     st\<lparr>ss_events := ss_events st @ done_events R responseID st\<rparr>"

subsection \<open>The loop and the function\<close>

definition data_of_line :: "string \<Rightarrow> string option" where
  "data_of_line line =
     (if prefix ''data: '' line then Some (drop (length ''data: '') line)
      else if prefix ''data:'' line then Some (drop (length ''data:'') line)
      else None)"

text \<open>
  \<open>if err := scanner.Err(); err != nil\<close> after the loop: the error is written to the
  log and nothing else happens.
\<close>

definition log_scanner_error :: "scan_error option \<Rightarrow> stream_state \<Rightarrow> stream_state" where
  "log_scanner_error err st =
     (case err of
        None \<Rightarrow> st
      | Some e \<Rightarrow> st\<lparr>ss_log := ss_log st @ [LogError ''Error reading stream'' e]\<rparr>)"

text \<open>
  \<open>for scanner.Scan()\<close> over the scanned lines, followed by the check of
  \<open>scanner.Err()\<close>. The check is made when \<open>Scan\<close> has returned false and also when
  the sentinel has left the loop; in that case the scanner's error is the one recorded
  while the sentinel line was the current one.
\<close>

fun stream_loop ::
  "range_order \<Rightarrow> chunk_decoder \<Rightarrow> string \<Rightarrow> stream_state \<Rightarrow> scanned_line list
     \<Rightarrow> scan_error option \<Rightarrow> stream_state" where
  "stream_loop R decode responseID st [] err = log_scanner_error err st"
| "stream_loop R decode responseID st ((line, recorded) # rest) err =
     (case data_of_line line of
        None \<Rightarrow> stream_loop R decode responseID st rest err
      | Some data \<Rightarrow>
          if data = ''[DONE]''
          then log_scanner_error recorded (handle_done R responseID st)
          else stream_loop R decode responseID (process_data decode responseID st data) rest err)"

definition initial_state :: "string \<Rightarrow> stream_state" where
  "initial_state responseID =
     \<lparr>ss_outputText = [], ss_currentToolID = 0, ss_toolCalls = [],
      ss_messageItemAdded = False,
      ss_events = [ResponseCreated (''resp-'' @ responseID) ''in_progress''],
      ss_log = []\<rparr>"

text \<open>
  The translation of scanned lines: the events written, the log, and the returned
  \<open>StreamResult\<close>, which is all the caller receives. \<open>R\<close> orders the \<open>range\<close> at the
  sentinel, \<open>R'\<close> the one that collects the result.
\<close>

definition translate ::
  "range_order \<Rightarrow> range_order \<Rightarrow> chunk_decoder \<Rightarrow> string
     \<Rightarrow> scanned_line list \<times> scan_error option
     \<Rightarrow> event list \<times> log_entry list \<times> StreamResult" where
  "translate R R' decode responseID scanned =
     (let st = stream_loop R decode responseID (initial_state responseID)
                 (fst scanned) (snd scanned)
      in (ss_events st, ss_log st,
          \<lparr>sr_OutputText = ss_outputText st,
           sr_ToolCalls = map snd (R' (ss_toolCalls st))\<rparr>))"

definition HandleStreamingResponse ::
  "range_order \<Rightarrow> range_order \<Rightarrow> chunk_decoder \<Rightarrow> string list \<Rightarrow> (error \<times> nat) option
     \<Rightarrow> string \<Rightarrow> event list \<times> log_entry list \<times> StreamResult" where
  "HandleStreamingResponse R R' decode body failure responseID =
     translate R R' decode responseID (scan body failure)"

text \<open>A concrete stream: two tool-call deltas carrying the two halves of \<open>{"a":1}\<close>.\<close>

definition tool_delta_chunk :: "string \<Rightarrow> string \<Rightarrow> string \<Rightarrow> ChatCompletionChunk" where
  "tool_delta_chunk ident name args =
     \<lparr>ch_ID = [], ch_Object = [], ch_Created = 0, ch_Model = [],
      ch_Choices =
        [\<lparr>ck_Index = 0,
          ck_Delta = \<lparr>cd_Role = [], cd_Content = [],
                      cd_ToolCalls =
                        [\<lparr>tc_ID = ident, tc_Type = ''function'',
                          tc_Function = \<lparr>fn_Name = name, fn_Arguments = args\<rparr>\<rparr>]\<rparr>,
          ck_FinishReason = []\<rparr>]\<rparr>"

definition text_delta_chunk :: "string \<Rightarrow> ChatCompletionChunk" where
  "text_delta_chunk content =
     \<lparr>ch_ID = [], ch_Object = [], ch_Created = 0, ch_Model = [],
      ch_Choices =
        [\<lparr>ck_Index = 0,
          ck_Delta = \<lparr>cd_Role = [], cd_Content = content, cd_ToolCalls = []\<rparr>,
          ck_FinishReason = []\<rparr>]\<rparr>"

text \<open>
  A decoder for the payloads of the examples: \<open>A\<close> and \<open>B\<close> are the two tool-call deltas
  with the id \<open>call_1\<close>, \<open>a\<close> and \<open>b\<close> the same deltas without an id, \<open>T\<close> a text delta.
\<close>

definition example_decode :: chunk_decoder where
  "example_decode data =
     (if data = ''A'' then Inr (tool_delta_chunk ''call_1'' ''f'' ''{\"a\":1'')
      else if data = ''B'' then Inr (tool_delta_chunk ''call_1'' [] ''}'')
      else if data = ''a'' then Inr (tool_delta_chunk [] ''f'' ''{\"a\":1'')
      else if data = ''b'' then Inr (tool_delta_chunk [] [] ''}'')
      else if data = ''T'' then Inr (text_delta_chunk ''Hi'')
      else Inl ''invalid character'')"

text \<open>Observations on the written events and the log.\<close>

definition no_completed :: "event list \<Rightarrow> bool" where
  "no_completed evs \<longleftrightarrow> (\<forall>i s. ResponseCompleted i s \<notin> set evs)"

text \<open>The text increments of the delta events, in the order written.\<close>

fun text_deltas :: "event list \<Rightarrow> string list" where
  "text_deltas [] = []"
| "text_deltas (OutputTextDelta delta i # evs) = delta # text_deltas evs"
| "text_deltas (_ # evs) = text_deltas evs"

text \<open>The ids of the function-call items, in the order of their added and done events.\<close>

fun added_tool_ids :: "event list \<Rightarrow> string list" where
  "added_tool_ids [] = []"
| "added_tool_ids (OutputItemAdded item # evs) =
     (if oi_Type item = ''function_call'' then oi_ID item # added_tool_ids evs
      else added_tool_ids evs)"
| "added_tool_ids (_ # evs) = added_tool_ids evs"

fun done_tool_ids :: "event list \<Rightarrow> string list" where
  "done_tool_ids [] = []"
| "done_tool_ids (OutputItemDone item # evs) =
     (if oi_Type item = ''function_call'' then oi_ID item # done_tool_ids evs
      else done_tool_ids evs)"
| "done_tool_ids (_ # evs) = done_tool_ids evs"

section \<open>Web-search orchestration (handler.HandleWithWebSearch)\<close>

record SearchResult =
  sres_Title :: string
  sres_URL :: string
  sres_Content :: string
  sres_Snippet :: string

record SearchProviderResult =
  spr_Query :: string
  spr_Results :: "SearchResult list"
  spr_Error :: string

record WebSearchCall =
  wsc_ID :: string
  wsc_Query :: string
  wsc_Status :: string

subsection \<open>search.FormatResults\<close>

text \<open>One entry of the listing; \<open>i\<close> is the index of the loop.\<close>

definition format_result :: "nat \<Rightarrow> SearchResult \<Rightarrow> string" where
  "format_result i r =
     show_int (int i + 1) @ ''. '' @ sres_Title r @ [CHR 0x0A]
     @ (if sres_URL r \<noteq> [] then ''   URL: '' @ sres_URL r @ [CHR 0x0A] else [])
     @ (if sres_Snippet r \<noteq> [] then ''   Summary: '' @ sres_Snippet r @ [CHR 0x0A] else [])
     @ (if sres_Content r \<noteq> [] \<and> sres_Content r \<noteq> sres_Snippet r then
          (let content = (if length (sres_Content r) > 500
                          then take 500 (sres_Content r) @ ''...'' else sres_Content r)
           in ''   Content: '' @ content @ [CHR 0x0A])
        else [])
     @ [CHR 0x0A]"

fun format_results_from :: "nat \<Rightarrow> string \<Rightarrow> SearchResult list \<Rightarrow> string" where
  "format_results_from i output [] = output"
| "format_results_from i output (r # rs) =
     format_results_from (i + 1) (output @ format_result i r) rs"

text \<open>The argument is a pointer: \<open>None\<close> is nil.\<close>

definition FormatResults :: "SearchProviderResult option \<Rightarrow> string" where
  "FormatResults result =
     (case result of
        None \<Rightarrow> ''No search results found.''
      | Some res \<Rightarrow>
          (if length (spr_Results res) = 0 then ''No search results found.''
           else format_results_from 0
                  (''Search results for: '' @ spr_Query res @ [CHR 0x0A, CHR 0x0A])
                  (spr_Results res)))"

subsection \<open>The collaborators\<close>

text \<open>
  The orchestrator talks to two collaborators, each a function on an explicit state of
  the outside world: \<open>sendToUpstream\<close>, the HTTP round trip to the upstream model, which
  returns an error or the decoded response, and \<open>searchManager.Search\<close>, which returns an
  error or a (possibly nil) result. \<open>json.Unmarshal\<close> of a tool call's arguments into
  \<open>struct { Query string }\<close> is the parameter \<open>unmarshal\<close>: an error, or the value of
  the field \<open>Query\<close> (empty when the document has no such field).
\<close>

type_synonym 'u upstream = "'u \<Rightarrow> ChatCompletionRequest \<Rightarrow> (error + ChatCompletionResponse) \<times> 'u"
type_synonym 's searcher = "'s \<Rightarrow> string \<Rightarrow> (error + SearchProviderResult option) \<times> 's"
type_synonym query_decoder = "string \<Rightarrow> error + string"




text \<open>The Go result pair \<open>(string, error)\<close>.\<close>

definition parseQueryFromArguments :: "query_decoder \<Rightarrow> string \<Rightarrow> string \<times> error option" where
  "parseQueryFromArguments unmarshal args =
     (case unmarshal args of
        Inl err \<Rightarrow> ([], Some err)
      | Inr query \<Rightarrow> (query, None))"

text \<open>
  The body of \<open>for _, tc := range webSearchToolCalls\<close>, on the running message list,
  the recorded calls and the state of the search collaborator.
\<close>

definition process_web_search_call ::
  "query_decoder \<Rightarrow> 's searcher \<Rightarrow> ChatMessage list \<times> WebSearchCall list \<times> 's \<Rightarrow> ToolCall
     \<Rightarrow> ChatMessage list \<times> WebSearchCall list \<times> 's" where
  "process_web_search_call unmarshal search acc tc =
     (let (messages, webSearchCalls, s) = acc;
          (query0, err) = parseQueryFromArguments unmarshal (fn_Arguments (tc_Function tc));
          query = (if err \<noteq> None then ''unknown'' else query0);
          (searchResult, s1) = search s query;
          (searchContent, call) =
            (case searchResult of
               Inl err \<Rightarrow>
                 (''Search failed: '' @ err,
                  \<lparr>wsc_ID = tc_ID tc, wsc_Query = query, wsc_Status = ''failed''\<rparr>)
             | Inr res \<Rightarrow>
                 (FormatResults res,
                  \<lparr>wsc_ID = tc_ID tc, wsc_Query = query, wsc_Status = ''completed''\<rparr>));
          toolMsg = zero_ChatMessage
                      \<lparr>cm_Role := ''tool'', cm_ToolCallID := tc_ID tc,
                       cm_Content := ContentString searchContent\<rparr>
      in (messages @ [toolMsg], webSearchCalls @ [call], s1))"

record ('u, 's) orchestration =
  or_messages :: "ChatMessage list"
  or_webSearchCalls :: "WebSearchCall list"
  or_upstream :: 'u
  or_search :: 's
  or_sent :: "ChatCompletionRequest list"


text \<open>
  One upstream call: the request is recorded in \<open>or_sent\<close>, the list of the requests
  sent so far.
\<close>

definition send ::
  "'u upstream \<Rightarrow> ChatCompletionRequest \<Rightarrow> ('u, 's) orchestration
     \<Rightarrow> (error + ChatCompletionResponse) \<times> ('u, 's) orchestration" where
  "send sendToUpstream req st =
     (let (r, u1) = sendToUpstream (or_upstream st) req
      in (r, st\<lparr>or_upstream := u1, or_sent := or_sent st @ [req]\<rparr>))"













section \<open>The session-RPC search client (search.MCPProvider)\<close>

record MCPProvider =
  mp_name :: string
  mp_baseURL :: string
  mp_apiKey :: string
  mp_toolName :: string
  mp_queryParam :: string
  mp_timeout :: int
  mp_sessionID :: string

record mcpError =
  me_Code :: int
  me_Message :: string

text \<open>\<open>Result\<close> is a \<open>json.RawMessage\<close>, kept as text; \<open>Error\<close> is a pointer.\<close>

record mcpResponse =
  mr_JSONRPC :: string
  mr_Result :: string
  mr_Error :: "mcpError option"
  mr_ID :: int

record content_entry =
  ce_Type :: string
  ce_Text :: string

record contentResult =
  cres_Content :: "content_entry list"
  cres_IsError :: bool

record mcpSearchResult =
  msr_Title :: string
  msr_Link :: string
  msr_URL :: string
  msr_Content :: string
  msr_Snippet :: string

subsection \<open>The collaborators\<close>

text \<open>
  The two requests the client posts to its endpoint: the handshake, and the invocation
  with the session header (empty when no header is attached), the tool name, the name
  of the query parameter and the query.
\<close>

datatype rpc_request =
    InitializeRequest
  | ToolsCallRequest string string string string

text \<open>
  What \<open>client.Do\<close> gives back: the value of the session header, looked up without
  regard to letter case (empty when absent), and the body, or the error of reading it.
\<close>

record http_response =
  hr_session :: string
  hr_body :: "error + string"

text \<open>
  The outside world is an explicit state \<open>'w\<close>. \<open>env_post\<close> is \<open>client.Do\<close>; the other
  fields are the uses of \<open>json.Unmarshal\<close>: of a response body into \<open>mcpResponse\<close>, of
  the result into the content list, of the first content text into an \<open>interface{}\<close>,
  of a string into \<open>[]mcpSearchResult\<close>, and the conversion of a decoded array into
  \<open>[]mcpSearchResult\<close> by marshalling it again.
\<close>

record 'w mcp_env =
  env_post :: "'w \<Rightarrow> rpc_request \<Rightarrow> (error + http_response) \<times> 'w"
  env_unmarshal_response :: "string \<Rightarrow> error + mcpResponse"
  env_unmarshal_content :: "string \<Rightarrow> error + contentResult"
  env_unmarshal_any :: "string \<Rightarrow> error + json"
  env_unmarshal_results :: "string \<Rightarrow> error + mcpSearchResult list"
  env_convert_results :: "json list \<Rightarrow> error + mcpSearchResult list"

text \<open>The client with its cached session, the world, and the requests posted so far.\<close>

record 'w mcp_state =
  ms_provider :: MCPProvider
  ms_world :: 'w
  ms_sent :: "rpc_request list"

definition http_post ::
  "'w mcp_env \<Rightarrow> rpc_request \<Rightarrow> 'w mcp_state \<Rightarrow> (error + http_response) \<times> 'w mcp_state" where
  "http_post E req st =
     (let (r, w1) = env_post E (ms_world st) req
      in (r, st\<lparr>ms_world := w1, ms_sent := ms_sent st @ [req]\<rparr>))"

subsection \<open>Strings\<close>

text \<open>\<open>strings.Contains\<close> and \<open>strings.Split(body, "\n")\<close>.\<close>

fun contains :: "string \<Rightarrow> string \<Rightarrow> bool" where
  "contains [] substr = (substr = [])"
| "contains (c # cs) substr = (prefix substr (c # cs) \<or> contains cs substr)"

fun split_newline :: "string \<Rightarrow> string list" where
  "split_newline [] = [[]]"
| "split_newline (c # cs) =
     (if c = CHR 0x0A then [] # split_newline cs
      else (case split_newline cs of
              [] \<Rightarrow> [[c]]
            | l # ls \<Rightarrow> (c # l) # ls))"

fun first_data_line :: "string list \<Rightarrow> string option" where
  "first_data_line [] = None"
| "first_data_line (line # lines) =
     (if prefix ''data:'' line then Some (drop (length ''data:'') line)
      else first_data_line lines)"

definition parseSSEResponse :: "string \<Rightarrow> string" where
  "parseSSEResponse body =
     (case first_data_line (split_newline body) of
        Some jsonData \<Rightarrow> jsonData
      | None \<Rightarrow> body)"

subsection \<open>The session\<close>

definition IsAvailable :: "MCPProvider \<Rightarrow> bool" where
  "IsAvailable p \<longleftrightarrow> mp_apiKey p \<noteq> []"

text \<open>
  \<open>ensureSession\<close> returns an \<open>error\<close>: \<open>None\<close> is nil. A cached session is reused;
  otherwise the handshake is posted and the session header, present or not, is cached.
  Building the request fails only for a malformed endpoint URL, which is left out.
\<close>

definition ensureSession :: "'w mcp_env \<Rightarrow> 'w mcp_state \<Rightarrow> error option \<times> 'w mcp_state" where
  "ensureSession E st =
     (if mp_sessionID (ms_provider st) \<noteq> [] then (None, st)
      else
        (let (r, st1) = http_post E InitializeRequest st
         in case r of
              Inl err \<Rightarrow> (Some (''failed to send request: '' @ err), st1)
            | Inr resp \<Rightarrow>
                (None, st1\<lparr>ms_provider := (ms_provider st1)\<lparr>mp_sessionID := hr_session resp\<rparr>\<rparr>)))"

definition clearSession :: "'w mcp_state \<Rightarrow> 'w mcp_state" where
  "clearSession st = st\<lparr>ms_provider := (ms_provider st)\<lparr>mp_sessionID := []\<rparr>\<rparr>"

definition tools_call_request :: "MCPProvider \<Rightarrow> string \<Rightarrow> rpc_request" where
  "tools_call_request p query =
     ToolsCallRequest (mp_sessionID p) (mp_toolName p) (mp_queryParam p) query"

text \<open>\<open>sendMCPRequest\<close> for the invocation; the session header is the cached session.\<close>

definition sendMCPRequest ::
  "'w mcp_env \<Rightarrow> string \<Rightarrow> 'w mcp_state \<Rightarrow> (error + mcpResponse) \<times> 'w mcp_state" where
  "sendMCPRequest E query st =
     (let (r, st1) = http_post E (tools_call_request (ms_provider st) query) st
      in case r of
           Inl err \<Rightarrow> (Inl (''failed to send request: '' @ err), st1)
         | Inr resp \<Rightarrow>
             (case hr_body resp of
                Inl err \<Rightarrow> (Inl (''failed to read response: '' @ err), st1)
              | Inr body \<Rightarrow>
                  (case env_unmarshal_response E (parseSSEResponse body) of
                     Inl err \<Rightarrow>
                       (Inl (''failed to parse response: '' @ err @ '' (body: '' @ body @ '')''),
                        st1)
                   | Inr mcpResp \<Rightarrow> (Inr mcpResp, st1))))"

subsection \<open>parseResults\<close>

text \<open>The \<open>%T\<close> of a decoded value that is neither a string nor an array.\<close>

definition go_type_name :: "json \<Rightarrow> string" where
  "go_type_name v =
     (case v of
        JNull \<Rightarrow> ''<nil>''
      | JBool b \<Rightarrow> ''bool''
      | JNum n \<Rightarrow> ''float64''
      | JStr s \<Rightarrow> ''string''
      | JArr a \<Rightarrow> ''[]interface {}''
      | JObj m \<Rightarrow> ''map[string]interface {}'')"

definition search_result_of :: "mcpSearchResult \<Rightarrow> SearchResult" where
  "search_result_of item =
     (let url = (if msr_Link item = [] then msr_URL item else msr_Link item)
      in \<lparr>sres_Title = msr_Title item, sres_URL = url, sres_Content = msr_Content item,
          sres_Snippet = msr_Snippet item\<rparr>)"

definition parseResults :: "'w mcp_env \<Rightarrow> string \<Rightarrow> string \<Rightarrow> error + SearchProviderResult" where
  "parseResults E query text =
     (case env_unmarshal_any E text of
        Inl err \<Rightarrow> Inl (''failed to parse first JSON: '' @ err)
      | Inr firstParse \<Rightarrow>
          (case (case firstParse of
                   JStr v \<Rightarrow>
                     (case env_unmarshal_results E v of
                        Inl err \<Rightarrow> Inl (''failed to parse second JSON: '' @ err)
                      | Inr rawResults \<Rightarrow> Inr rawResults)
                 | JArr v \<Rightarrow>
                     (case env_convert_results E v of
                        Inl err \<Rightarrow> Inl (''failed to convert results: '' @ err)
                      | Inr rawResults \<Rightarrow> Inr rawResults)
                 | _ \<Rightarrow> Inl (''unexpected result type: '' @ go_type_name firstParse)) of
             Inl err \<Rightarrow> Inl err
           | Inr rawResults \<Rightarrow>
               Inr \<lparr>spr_Query = query, spr_Results = map search_result_of rawResults,
                    spr_Error = []\<rparr>))"

subsection \<open>Search\<close>

text \<open>
  The body of \<open>for attempt := 0; attempt < 2; attempt++\<close> either returns from \<open>Search\<close>
  or, after clearing the session, continues with the next attempt.
\<close>

datatype 'a loop_step = Return 'a | Continue

definition attempt_body ::
  "'w mcp_env \<Rightarrow> string \<Rightarrow> 'w mcp_state
     \<Rightarrow> (error + SearchProviderResult) loop_step \<times> 'w mcp_state" where
  "attempt_body E query st =
     (case ensureSession E st of
        (Some err, st1) \<Rightarrow> (Return (Inl (''failed to establish MCP session: '' @ err)), st1)
      | (None, st1) \<Rightarrow>
          (case sendMCPRequest E query st1 of
             (Inl err, st2) \<Rightarrow> (Return (Inl (''failed to call search tool: '' @ err)), st2)
           | (Inr resp, st2) \<Rightarrow>
               (case mr_Error resp of
                  Some e \<Rightarrow>
                    (if me_Code e = - 401 \<or> contains (me_Message e) ''apikey''
                     then (Continue, clearSession st2)
                     else (Return (Inl (''search tool error: '' @ me_Message e @ '' (code: ''
                                         @ show_int (me_Code e) @ '')'')), st2))
                | None \<Rightarrow>
                    (case env_unmarshal_content E (mr_Result resp) of
                       Inl err \<Rightarrow>
                         (Return (Inl (''failed to parse content result: '' @ err)), st2)
                     | Inr contentResult \<Rightarrow>
                         (if cres_IsError contentResult then
                            (if length (cres_Content contentResult) > 0 then
                               (let errText = ce_Text (hd (cres_Content contentResult))
                                in if contains errText ''apikey'' \<or> contains errText ''-401''
                                   then (Continue, clearSession st2)
                                   else (Return (Inl (''MCP error: '' @ errText)), st2))
                             else (Return (Inl ''MCP error: unknown error''), st2))
                          else if length (cres_Content contentResult) = 0
                          then (Return (Inl ''no content in response''), st2)
                          else (Return (parseResults E query
                                          (ce_Text (hd (cres_Content contentResult)))), st2))))))"

function search_attempts ::
  "'w mcp_env \<Rightarrow> string \<Rightarrow> nat \<Rightarrow> 'w mcp_state
     \<Rightarrow> (error + SearchProviderResult) \<times> 'w mcp_state" where
  "search_attempts E query attempt st =
     (if attempt < 2 then
        (case attempt_body E query st of
           (Return r, st1) \<Rightarrow> (r, st1)
         | (Continue, st1) \<Rightarrow> search_attempts E query (attempt + 1) st1)
      else (Inl ''failed after retry: session error'', st))"
  by pat_completeness auto
termination
  by (relation "measure (\<lambda>(E, query, attempt, st). 2 - attempt)") auto

declare search_attempts.simps [simp del]

definition MCPProvider_Search ::
  "'w mcp_env \<Rightarrow> string \<Rightarrow> 'w mcp_state \<Rightarrow> (error + SearchProviderResult) \<times> 'w mcp_state" where
  "MCPProvider_Search E query st =
     (if \<not> IsAvailable (ms_provider st)
      then (Inl (mp_name (ms_provider st) @ '' provider not configured: missing API key''), st)
      else search_attempts E query 0 st)"

text \<open>
  A scripted server for the examples: the world is the list of the responses still to
  come. The bodies \<open>auth\<close> and \<open>internal\<close> decode to error envelopes with the codes
  \<open>-401\<close> and \<open>-32000\<close>, the body \<open>ok\<close> to a result with an empty result array.
\<close>

definition scripted_env :: "http_response list mcp_env" where
  "scripted_env =
     \<lparr>env_post = (\<lambda>w req. case w of
                              [] \<Rightarrow> (Inl ''connection refused'', [])
                            | r # rs \<Rightarrow> (Inr r, rs)),
      env_unmarshal_response = (\<lambda>body.
         if body = ''auth'' then
           Inr \<lparr>mr_JSONRPC = ''2.0'', mr_Result = [],
                mr_Error = Some \<lparr>me_Code = - 401, me_Message = ''unauthorized''\<rparr>, mr_ID = 2\<rparr>
         else if body = ''internal'' then
           Inr \<lparr>mr_JSONRPC = ''2.0'', mr_Result = [],
                mr_Error = Some \<lparr>me_Code = - 32000, me_Message = ''internal error''\<rparr>, mr_ID = 2\<rparr>
         else if body = ''ok'' then
           Inr \<lparr>mr_JSONRPC = ''2.0'', mr_Result = ''result'', mr_Error = None, mr_ID = 2\<rparr>
         else Inl ''unexpected end of JSON input''),
      env_unmarshal_content = (\<lambda>raw.
         if raw = ''result''
         then Inr \<lparr>cres_Content = [\<lparr>ce_Type = ''text'', ce_Text = ''[]''\<rparr>], cres_IsError = False\<rparr>
         else Inl ''unexpected end of JSON input''),
      env_unmarshal_any = (\<lambda>text.
         if text = ''[]'' then Inr (JArr []) else Inl ''invalid character''),
      env_unmarshal_results = (\<lambda>text. Inl ''invalid character''),
      env_convert_results = (\<lambda>v. if v = [] then Inr [] else Inl ''cannot unmarshal'')\<rparr>"

definition handshake_response :: "string \<Rightarrow> http_response" where
  "handshake_response session = \<lparr>hr_session = session, hr_body = Inr []\<rparr>"

definition body_response :: "string \<Rightarrow> http_response" where
  "body_response body = \<lparr>hr_session = [], hr_body = Inr (''event:message'' @ [CHR 0x0A] @ ''data:'' @ body)\<rparr>"

definition example_provider :: MCPProvider where
  "example_provider =
     \<lparr>mp_name = ''zhipu'', mp_baseURL = ''https://example.test/mcp'', mp_apiKey = ''key'',
      mp_toolName = ''webSearchPrime'', mp_queryParam = ''search_query'', mp_timeout = 30,
      mp_sessionID = []\<rparr>"

definition example_mcp_state :: "http_response list \<Rightarrow> http_response list mcp_state" where
  "example_mcp_state script = \<lparr>ms_provider = example_provider, ms_world = script, ms_sent = []\<rparr>"

section \<open>Properties of ConvertResponse\<close>

lemma append_tool_items_map:
  "append_tool_items rid out tcs = out @ map (toolItem rid) tcs"
  by (induction tcs arbitrary: out) simp_all

lemma ConvertResponse_output_Cons:
  "cr_Choices resp = choice # rest \<Longrightarrow>
   rr_Output (ConvertResponse resp rid) =
     map (toolItem rid) (cm_ToolCalls (cc_Message choice)) @ [messageItem rid choice]"
  by (simp add: ConvertResponse_def Let_def append_tool_items_map)

lemma toolItem_fields:
  "oi_Type (toolItem rid tc) = ''function_call''"
  "oi_Status (toolItem rid tc) = ''completed''"
  "oi_CallID (toolItem rid tc) = tc_ID tc"
  "oi_Name (toolItem rid tc) = fn_Name (tc_Function tc)"
  "oi_Arguments (toolItem rid tc) = fn_Arguments (tc_Function tc)"
  by (simp_all add: toolItem_def)

text \<open>
  Claim C9. For a response with at least one choice, the output list is: one
  \<open>function_call\<close> item with status \<open>completed\<close> for each tool call of the first
  choice's message (in order, carrying the call's id, name and arguments), followed by
  exactly one \<open>message\<close> item, which is last. When the first choice has no tool calls
  and its content is the empty string, the output is only the message item, and that
  item has no content.
\<close>

theorem ConvertResponse_tool_items_before_message:
  assumes "cr_Choices resp = choice # rest"
  shows "let out = rr_Output (ConvertResponse resp rid);
             tcs = cm_ToolCalls (cc_Message choice)
         in length out = length tcs + 1
          \<and> (\<forall>i < length tcs.
                oi_Type (out ! i) = ''function_call''
              \<and> oi_Status (out ! i) = ''completed''
              \<and> oi_CallID (out ! i) = tc_ID (tcs ! i)
              \<and> oi_Name (out ! i) = fn_Name (tc_Function (tcs ! i))
              \<and> oi_Arguments (out ! i) = fn_Arguments (tc_Function (tcs ! i)))
          \<and> oi_Type (out ! length tcs) = ''message''
          \<and> out ! length tcs = messageItem rid choice
          \<and> (tcs = [] \<and> cm_Content (cc_Message choice) = ContentString [] \<longrightarrow>
                out = [messageItem rid choice] \<and> oi_Content (messageItem rid choice) = [])"
  using assms
  by (simp add: ConvertResponse_output_Cons Let_def nth_append toolItem_fields
        messageItem_def response_content_def)

theorem ConvertResponse_tool_items_before_message_witness:
  "map oi_Type (rr_Output (ConvertResponse (example_response (ContentString ''hi'') [example_tool_call]) ''r1''))
     = [''function_call'', ''message'']
   \<and> map oi_Status (rr_Output (ConvertResponse (example_response (ContentString ''hi'') [example_tool_call]) ''r1''))
     = [''completed'', []]
   \<and> length (rr_Output (ConvertResponse (example_response (ContentString []) []) ''r1'')) = 1
   \<and> oi_Content (hd (rr_Output (ConvertResponse (example_response (ContentString []) []) ''r1''))) = []"
  using ConvertResponse_tool_items_before_message
          [of "example_response (ContentString ''hi'') [example_tool_call]" _ "[]" "''r1''"]
        ConvertResponse_tool_items_before_message
          [of "example_response (ContentString []) []" _ "[]" "''r1''"]
  by (simp add: example_response_def example_tool_call_def Let_def ConvertResponse_def
        toolItem_def messageItem_def response_content_def zero_OutputItem_def)

text \<open>
  Claim C10. With an empty choices list the output list is empty (no message item is
  emitted), the status is \<open>completed\<close> and the id is \<open>resp-\<close> followed by the request id.
\<close>

theorem ConvertResponse_no_choices:
  assumes "cr_Choices resp = []"
  shows "rr_Output (ConvertResponse resp rid) = []
       \<and> rr_Status (ConvertResponse resp rid) = ''completed''
       \<and> rr_ID (ConvertResponse resp rid) = ''resp-'' @ rid"
  using assms by (simp add: ConvertResponse_def Let_def)

theorem ConvertResponse_no_choices_witness:
  "rr_Output (ConvertResponse ((example_response ContentNil [])\<lparr>cr_Choices := []\<rparr>) ''r1'') = []
   \<and> rr_Status (ConvertResponse ((example_response ContentNil [])\<lparr>cr_Choices := []\<rparr>) ''r1'') = ''completed''
   \<and> rr_ID (ConvertResponse ((example_response ContentNil [])\<lparr>cr_Choices := []\<rparr>) ''r1'') = ''resp-r1''"
  using ConvertResponse_no_choices [of "(example_response ContentNil [])\<lparr>cr_Choices := []\<rparr>" "''r1''"]
  by (simp add: example_response_def)



section \<open>Properties of ConvertRequest\<close>

text \<open>The messages that the input items contribute, in input order.\<close>

lemma append_input_items_append:
  "append_input_items sd messages items = messages @ append_input_items sd [] items"
proof (induction items arbitrary: messages)
  case Nil
  show ?case by simp
next
  case (Cons item items)
  show ?case
  proof (cases "convertInputItemToMessage item sd")
    case None
    then show ?thesis using Cons.IH [of messages] by simp
  next
    case (Some msg)
    then show ?thesis
      using Cons.IH [of "messages @ [msg]"] Cons.IH [of "[msg]"] by simp
  qed
qed

lemma hasSystemMsg_iff: "hasSystemMsg ms \<longleftrightarrow> (\<exists>m \<in> set ms. cm_Role m = ''system'')"
  by (induction ms) auto

text \<open>
  Claim C7. With non-empty instructions and no message of role \<open>system\<close> in the history,
  the output message list is the system message built from the instructions, at
  position 0, followed by exactly the messages produced without instructions (history,
  then the converted input items): one message is inserted. When the history already
  holds a system message, the output is the same as without instructions: nothing is
  inserted.
\<close>

theorem ConvertRequest_system_message:
  assumes "rq_Instructions req \<noteq> []"
  shows "(\<not> (\<exists>m \<in> set history. cm_Role m = ''system'') \<longrightarrow>
            cq_Messages (fst (ConvertRequest req mm history sd))
              = system_message (rq_Instructions req)
                  # history @ append_input_items sd [] (rq_Input req)
          \<and> cq_Messages (fst (ConvertRequest req mm history sd)) ! 0
              = \<lparr>cm_Role = ''system'', cm_Content = ContentString (rq_Instructions req),
                 cm_Name = [], cm_ToolCalls = [], cm_ToolCallID = []\<rparr>
          \<and> tl (cq_Messages (fst (ConvertRequest req mm history sd)))
              = cq_Messages (fst (ConvertRequest (req\<lparr>rq_Instructions := []\<rparr>) mm history sd)))
       \<and> ((\<exists>m \<in> set history. cm_Role m = ''system'') \<longrightarrow>
            cq_Messages (fst (ConvertRequest req mm history sd))
              = history @ append_input_items sd [] (rq_Input req)
          \<and> cq_Messages (fst (ConvertRequest req mm history sd))
              = cq_Messages (fst (ConvertRequest (req\<lparr>rq_Instructions := []\<rparr>) mm history sd)))"
proof -
  have h0: "(if length history > 0 then history else []) = history"
    by simp
  have plain: "cq_Messages (fst (ConvertRequest (req\<lparr>rq_Instructions := []\<rparr>) mm history sd))
                 = history @ append_input_items sd [] (rq_Input req)"
    unfolding ConvertRequest_def Let_def h0
    by (simp add: split_beta append_input_items_append [of sd history])
  have absent: "cq_Messages (fst (ConvertRequest req mm history sd))
                  = system_message (rq_Instructions req)
                      # history @ append_input_items sd [] (rq_Input req)"
    if "\<not> (\<exists>m \<in> set history. cm_Role m = ''system'')"
    using that assms unfolding ConvertRequest_def Let_def h0
    by (simp add: split_beta hasSystemMsg_iff
          append_input_items_append [of sd "system_message (rq_Instructions req) # history"])
  have present: "cq_Messages (fst (ConvertRequest req mm history sd))
                   = history @ append_input_items sd [] (rq_Input req)"
    if "\<exists>m \<in> set history. cm_Role m = ''system''"
    using that assms unfolding ConvertRequest_def Let_def h0
    by (simp add: split_beta hasSystemMsg_iff append_input_items_append [of sd history])
  show ?thesis
    using plain absent present
    by (auto simp: system_message_def zero_ChatMessage_def)
qed

theorem ConvertRequest_system_message_witness:
  "''be brief'' \<noteq> []
   \<and> map cm_Role (cq_Messages (fst (ConvertRequest (example_request ''be brief'' [])
        Map.empty (example_history ''user'') False)))
       = [''system'', ''user'', ''user'']
   \<and> map cm_Role (cq_Messages (fst (ConvertRequest (example_request ''be brief'' [])
        Map.empty (example_history ''system'') False)))
       = [''system'', ''user'']
   \<and> map cm_Content (cq_Messages (fst (ConvertRequest (example_request ''be brief'' [])
        Map.empty (example_history ''system'') False)))
       = [ContentString ''earlier'', ContentString ''hello'']"
  using ConvertRequest_system_message
          [of "example_request ''be brief'' []" "example_history ''user''" Map.empty False]
        ConvertRequest_system_message
          [of "example_request ''be brief'' []" "example_history ''system''" Map.empty False]
  by (simp add: example_request_def example_history_def example_user_item_def
        system_message_def zero_ChatMessage_def convertInputItemToMessage_def
        convertMessageItem_def)

text \<open>What one tool declaration becomes.\<close>

lemma convert_tools_concat:
  "convert_tools (tools, flag) ts =
     (tools @ concat (map (\<lambda>t.
         if tl_Type t = ''web_search'' then [WebSearchFunctionTool]
         else if tl_Type t = ''function'' \<and> fd_Name (tl_Function t) \<noteq> []
         then [\<lparr>ct_Type = tl_Type t, ct_Function = tl_Function t\<rparr>]
         else []) ts),
      flag \<or> (\<exists>t \<in> set ts. tl_Type t = ''web_search''))"
  by (induction ts arbitrary: tools flag) auto

text \<open>
  Claim C8. The translated tool list is obtained from the declared tools, in order, by
  keeping each declaration of type \<open>function\<close> with a non-empty name with its type and
  its function definition unchanged, replacing each declaration of type \<open>web_search\<close>
  by the injected function tool, and dropping every other declaration. The injected
  tool is a function named \<open>web_search\<close> whose schema has the single property \<open>query\<close>,
  of type string, which is the only required field.
\<close>

theorem ConvertRequest_tools:
  "cq_Tools (fst (ConvertRequest req mm history sd))
     = concat (map (\<lambda>t.
         if tl_Type t = ''function'' \<and> fd_Name (tl_Function t) \<noteq> []
         then [\<lparr>ct_Type = ''function'', ct_Function = tl_Function t\<rparr>]
         else if tl_Type t = ''web_search'' then [WebSearchFunctionTool]
         else []) (rq_Tools req))
   \<and> ct_Type WebSearchFunctionTool = ''function''
   \<and> fd_Name (ct_Function WebSearchFunctionTool) = ''web_search''
   \<and> (\<exists>ps. fd_Parameters (ct_Function WebSearchFunctionTool) = Some ps
          \<and> map_of ps ''type'' = Some (JStr ''object'')
          \<and> map_of ps ''required'' = Some (JArr [JStr ''query''])
          \<and> (\<exists>qs. map_of ps ''properties'' = Some (JObj [(''query'', JObj qs)])
                 \<and> map_of qs ''type'' = Some (JStr ''string'')))"
proof -
  have eq: "(\<lambda>t. if tl_Type t = ''web_search'' then [WebSearchFunctionTool]
                 else if tl_Type t = ''function'' \<and> fd_Name (tl_Function t) \<noteq> []
                 then [\<lparr>ct_Type = tl_Type t, ct_Function = tl_Function t\<rparr>]
                 else [])
          = (\<lambda>t. if tl_Type t = ''function'' \<and> fd_Name (tl_Function t) \<noteq> []
                 then [\<lparr>ct_Type = ''function'', ct_Function = tl_Function t\<rparr>]
                 else if tl_Type t = ''web_search'' then [WebSearchFunctionTool]
                 else [])"
    by (rule ext) auto
  have "cq_Tools (fst (ConvertRequest req mm history sd))
          = fst (convert_tools ([], False) (rq_Tools req))"
    by (simp add: ConvertRequest_def Let_def split_beta)
  then show ?thesis
    by (simp add: convert_tools_concat eq WebSearchFunctionTool_def)
qed




theorem ConvertRequest_tools_witness:
  "map (\<lambda>t. (ct_Type t, fd_Name (ct_Function t)))
     (cq_Tools (fst (ConvertRequest
        (example_request []
           [example_function_tool, example_tool_of_type ''web_search'',
            example_tool_of_type ''code_interpreter'', example_tool_of_type ''function''])
        Map.empty [] False)))
     = [(''function'', ''get_weather''), (''function'', ''web_search'')]
   \<and> hd (cq_Tools (fst (ConvertRequest
        (example_request []
           [example_function_tool, example_tool_of_type ''web_search'',
            example_tool_of_type ''code_interpreter'', example_tool_of_type ''function''])
        Map.empty [] False)))
     = \<lparr>ct_Type = ''function'', ct_Function = tl_Function example_function_tool\<rparr>"
  using ConvertRequest_tools
          [of "example_request []
                 [example_function_tool, example_tool_of_type ''web_search'',
                  example_tool_of_type ''code_interpreter'', example_tool_of_type ''function'']"
              Map.empty "[]" False]
  by (simp add: example_request_def example_function_tool_def example_tool_of_type_def
        WebSearchFunctionTool_def)

section \<open>Properties of HandleStreamingResponse\<close>

subsection \<open>Evaluation of the examples\<close>

lemma show_int_small: "show_int 0 = ''0''" "show_int 1 = ''1''"
  by code_simp+

lemma hash_call_1: "hashToolCallID ''call_1'' = 2927191696"
  by (simp add: hashToolCallID_def)

lemma data_of_line_examples:
  "data_of_line ''data: A'' = Some ''A''" "data_of_line ''data: B'' = Some ''B''"
  "data_of_line ''data: a'' = Some ''a''" "data_of_line ''data: b'' = Some ''b''"
  "data_of_line ''data: T'' = Some ''T''" "data_of_line ''data: [DONE]'' = Some ''[DONE]''"
  by (simp_all add: data_of_line_def)

lemmas stream_eval =
  HandleStreamingResponse_def translate_def scan_def max_token_size_def dropCR_def
  initial_state_def data_of_line_examples example_decode_def process_data_def
  text_delta_chunk_def tool_delta_chunk_def handle_text_def handle_tool_call_def
  new_tool_item_def update_tool_call_def emit_def handle_done_def done_events_def
  log_scanner_error_def zero_OutputItem_def Let_def show_int_small hash_call_1
  message_item_done_def message_item_in_progress_def

subsection \<open>What a chunk can add to the events and the log\<close>





subsection \<open>The accumulated text\<close>

text \<open>The text kept in the state is the concatenation of the increments written.\<close>

lemma text_deltas_append: "text_deltas (xs @ ys) = text_deltas xs @ text_deltas ys"
  by (induction xs rule: text_deltas.induct) simp_all

lemma handle_text_text:
  "ss_outputText st = concat (text_deltas (ss_events st)) \<Longrightarrow>
   ss_outputText (handle_text rid st c) = concat (text_deltas (ss_events (handle_text rid st c)))"
  by (simp add: handle_text_def emit_def Let_def text_deltas_append)

lemma handle_tool_call_text:
  "ss_outputText st = concat (text_deltas (ss_events st)) \<Longrightarrow>
   ss_outputText (handle_tool_call rid st tc)
     = concat (text_deltas (ss_events (handle_tool_call rid st tc)))"
  by (simp add: handle_tool_call_def emit_def Let_def text_deltas_append split: option.splits)

lemma foldl_handle_tool_call_text:
  "ss_outputText st = concat (text_deltas (ss_events st)) \<Longrightarrow>
   ss_outputText (foldl (handle_tool_call rid) st tcs)
     = concat (text_deltas (ss_events (foldl (handle_tool_call rid) st tcs)))"
  by (induction tcs arbitrary: st) (simp_all add: handle_tool_call_text)

lemma process_data_text:
  "ss_outputText st = concat (text_deltas (ss_events st)) \<Longrightarrow>
   ss_outputText (process_data d rid st data)
     = concat (text_deltas (ss_events (process_data d rid st data)))"
  by (simp add: process_data_def Let_def foldl_handle_tool_call_text handle_text_text
        split: sum.splits list.splits)

subsection \<open>The loop\<close>

text \<open>Lines before the sentinel are processed one after the other.\<close>

lemma stream_loop_append:
  "\<forall>p \<in> set pre. data_of_line (fst p) \<noteq> Some ''[DONE]'' \<Longrightarrow>
   stream_loop R d rid st (pre @ rest) err
     = stream_loop R d rid (stream_loop R d rid st pre None) rest err"
proof (induction pre arbitrary: st)
  case Nil
  show ?case by (simp add: log_scanner_error_def)
next
  case (Cons p pre)
  then show ?case by (cases p; cases "data_of_line (fst p)") auto
qed

text \<open>The sentinel ends the loop; the scanner's error is then checked once.\<close>

lemma stream_loop_sentinel:
  assumes "data_of_line l = Some ''[DONE]''"
    and "\<forall>p \<in> set pre. data_of_line (fst p) \<noteq> Some ''[DONE]''"
  shows "stream_loop R d rid st (pre @ (l, recorded) # post) err
           = log_scanner_error recorded (handle_done R rid (stream_loop R d rid st pre None))"
  using assms(1) by (simp add: stream_loop_append [OF assms(2)])



lemma stream_loop_no_sentinel_text:
  "\<forall>p \<in> set ls. data_of_line (fst p) \<noteq> Some ''[DONE]'' \<Longrightarrow>
   ss_outputText st = concat (text_deltas (ss_events st)) \<Longrightarrow>
   ss_outputText (stream_loop R d rid st ls None)
     = concat (text_deltas (ss_events (stream_loop R d rid st ls None)))"
proof (induction ls arbitrary: st)
  case Nil
  then show ?case by (simp add: log_scanner_error_def)
next
  case (Cons p ls)
  then show ?case
    by (cases p; cases "data_of_line (fst p)") (auto simp: process_data_text)
qed

lemma initial_state_quiet:
  "no_completed (ss_events (initial_state rid))"
  "ss_outputText (initial_state rid) = concat (text_deltas (ss_events (initial_state rid)))"
  by (simp_all add: initial_state_def no_completed_def)

subsection \<open>The scanner\<close>



subsection \<open>The sentinel\<close>

text \<open>
  Claim C3, as the code has it. When the line after \<open>pre\<close> is a data line equal to
  \<open>[DONE]\<close> (and no line of \<open>pre\<close> is), the events written are those written for
  \<open>pre\<close>, then one item-done event for every open tool-call item, in the order in which
  the \<open>range\<close> over the map visits them (each item once), then the item-done event of
  the message, whose single content part holds the accumulated text (the concatenation
  of all text increments written), then the completed event. Nothing of the remaining
  input \<open>post\<close> or of the scanner's end \<open>err\<close> is read: text and tool calls are those
  reached after \<open>pre\<close>, and the log is the one reached after \<open>pre\<close>, followed by the
  read error if the scanner had recorded one when it handed out the sentinel. Every tool
  call's done event precedes the message's done event.
\<close>

theorem stream_sentinel_done_events:
  assumes "is_range_order R"
    and "data_of_line l = Some ''[DONE]''"
    and "\<forall>p \<in> set pre. data_of_line (fst p) \<noteq> Some ''[DONE]''"
  shows "let st = stream_loop R decode rid (initial_state rid) pre None;
             run = translate R R' decode rid (pre @ (l, recorded) # post, err)
         in fst run
              = ss_events st
                @ map OutputItemDone (map snd (R (ss_toolCalls st)))
                @ [OutputItemDone
                     \<lparr>oi_Type = ''message'', oi_ID = ''msg-'' @ rid, oi_Role = ''assistant'',
                      oi_Content = [\<lparr>ci_Type = ''output_text'', ci_Text = ss_outputText st,
                                     ci_ImageURL = [], ci_Data = []\<rparr>],
                      oi_CallID = [], oi_Name = [], oi_Arguments = [],
                      oi_Status = ''completed''\<rparr>,
                   ResponseCompleted (''resp-'' @ rid) ''completed'']
          \<and> ss_outputText st = concat (text_deltas (ss_events st))
          \<and> mset (map snd (R (ss_toolCalls st))) = mset (map snd (ss_toolCalls st))
          \<and> fst (snd run)
              = ss_log st @ (case recorded of
                               None \<Rightarrow> []
                             | Some e \<Rightarrow> [LogError ''Error reading stream'' e])
          \<and> sr_OutputText (snd (snd run)) = ss_outputText st
          \<and> sr_ToolCalls (snd (snd run)) = map snd (R' (ss_toolCalls st))"
proof -
  define st where "st = stream_loop R decode rid (initial_state rid) pre None"
  have loop: "stream_loop R decode rid (initial_state rid) (pre @ (l, recorded) # post) err
                = log_scanner_error recorded (handle_done R rid st)"
    unfolding st_def by (rule stream_loop_sentinel [OF assms(2,3)])
  have perm: "mset (map snd (R (ss_toolCalls st))) = mset (map snd (ss_toolCalls st))"
  proof -
    have "mset (R (ss_toolCalls st)) = mset (ss_toolCalls st)"
      using assms(1) by (simp add: is_range_order_def)
    then have "image_mset snd (mset (R (ss_toolCalls st))) = image_mset snd (mset (ss_toolCalls st))"
      by simp
    then show ?thesis by simp
  qed
  have acc: "ss_outputText st = concat (text_deltas (ss_events st))"
    unfolding st_def
    by (rule stream_loop_no_sentinel_text [OF assms(3) initial_state_quiet(2)])
  have snd_eq: "(\<lambda>(k, tc). OutputItemDone tc) = OutputItemDone \<circ> snd"
    by (rule ext) (simp add: split_beta)
  have run: "translate R R' decode rid (pre @ (l, recorded) # post, err)
               = (ss_events st @ done_events R rid st,
                  ss_log st @ (case recorded of
                                 None \<Rightarrow> []
                               | Some e \<Rightarrow> [LogError ''Error reading stream'' e]),
                  \<lparr>sr_OutputText = ss_outputText st,
                   sr_ToolCalls = map snd (R' (ss_toolCalls st))\<rparr>)"
    unfolding translate_def Let_def fst_conv snd_conv loop
    by (cases recorded) (simp_all add: handle_done_def log_scanner_error_def)
  show ?thesis
    unfolding Let_def st_def [symmetric] run
    using perm acc
    by (simp add: done_events_def snd_eq message_item_done_def zero_OutputItem_def)
qed

theorem stream_sentinel_done_events_witness:
  "is_range_order rev
   \<and> data_of_line ''data: [DONE]'' = Some ''[DONE]''
   \<and> drop 5 (fst (translate rev (\<lambda>m. m) example_decode ''r''
              ([(''data: T'', None), (''data: a'', None), (''data: b'', None)]
               @ (''data: [DONE]'', None) # [(''data: T'', None)], None)))
     = [OutputItemDone
          \<lparr>oi_Type = ''function_call'', oi_ID = ''fc-r-1'', oi_Role = [], oi_Content = [],
           oi_CallID = [], oi_Name = [], oi_Arguments = ''}'', oi_Status = ''in_progress''\<rparr>,
        OutputItemDone
          \<lparr>oi_Type = ''function_call'', oi_ID = ''fc-r-0'', oi_Role = [], oi_Content = [],
           oi_CallID = [], oi_Name = ''f'', oi_Arguments = ''{\"a\":1'',
           oi_Status = ''in_progress''\<rparr>,
        OutputItemDone
          \<lparr>oi_Type = ''message'', oi_ID = ''msg-r'', oi_Role = ''assistant'',
           oi_Content = [\<lparr>ci_Type = ''output_text'', ci_Text = ''Hi'',
                          ci_ImageURL = [], ci_Data = []\<rparr>],
           oi_CallID = [], oi_Name = [], oi_Arguments = [], oi_Status = ''completed''\<rparr>,
        ResponseCompleted ''resp-r'' ''completed'']"
proof -
  have R: "is_range_order rev"
    by (simp add: is_range_order_def)
  have l: "data_of_line ''data: [DONE]'' = Some ''[DONE]''"
    by (simp add: data_of_line_examples)
  have pre: "\<forall>p \<in> set [(''data: T'', None), (''data: a'', None), (''data: b'', None)].
               data_of_line (fst p) \<noteq> Some ''[DONE]''"
    by (simp add: data_of_line_examples)
  have st: "stream_loop rev example_decode ''r'' (initial_state ''r'')
              [(''data: T'', None), (''data: a'', None), (''data: b'', None)] None
            = \<lparr>ss_outputText = ''Hi'', ss_currentToolID = 2,
               ss_toolCalls =
                 [(0, \<lparr>oi_Type = ''function_call'', oi_ID = ''fc-r-0'', oi_Role = [],
                       oi_Content = [], oi_CallID = [], oi_Name = ''f'',
                       oi_Arguments = ''{\"a\":1'', oi_Status = ''in_progress''\<rparr>),
                  (1, \<lparr>oi_Type = ''function_call'', oi_ID = ''fc-r-1'', oi_Role = [],
                       oi_Content = [], oi_CallID = [], oi_Name = [],
                       oi_Arguments = ''}'', oi_Status = ''in_progress''\<rparr>)],
               ss_messageItemAdded = True,
               ss_events =
                 [ResponseCreated ''resp-r'' ''in_progress'',
                  OutputItemAdded (message_item_in_progress ''r''),
                  OutputTextDelta ''Hi'' 0,
                  OutputItemAdded (new_tool_item ''r'' 0 \<lparr>tc_ID = [], tc_Type = ''function'',
                     tc_Function = \<lparr>fn_Name = ''f'', fn_Arguments = ''{\"a\":1''\<rparr>\<rparr>),
                  OutputItemAdded (new_tool_item ''r'' 1 \<lparr>tc_ID = [], tc_Type = ''function'',
                     tc_Function = \<lparr>fn_Name = [], fn_Arguments = ''}''\<rparr>\<rparr>)],
               ss_log = []\<rparr>"
    by (simp add: initial_state_def data_of_line_examples example_decode_def process_data_def
          text_delta_chunk_def tool_delta_chunk_def handle_text_def handle_tool_call_def
          update_tool_call_def emit_def log_scanner_error_def Let_def
          new_tool_item_def zero_OutputItem_def show_int_small)
  from stream_sentinel_done_events [OF R l pre, where R' = "\<lambda>m. m" and decode = example_decode
         and rid = "''r''" and post = "[(''data: T'', None)]" and err = None
         and recorded = None]
  have "fst (translate rev (\<lambda>m. m) example_decode ''r''
              ([(''data: T'', None), (''data: a'', None), (''data: b'', None)]
               @ (''data: [DONE]'', None) # [(''data: T'', None)], None))
          = [ResponseCreated ''resp-r'' ''in_progress'',
             OutputItemAdded (message_item_in_progress ''r''),
             OutputTextDelta ''Hi'' 0,
             OutputItemAdded (new_tool_item ''r'' 0 \<lparr>tc_ID = [], tc_Type = ''function'',
                tc_Function = \<lparr>fn_Name = ''f'', fn_Arguments = ''{\"a\":1''\<rparr>\<rparr>),
             OutputItemAdded (new_tool_item ''r'' 1 \<lparr>tc_ID = [], tc_Type = ''function'',
                tc_Function = \<lparr>fn_Name = [], fn_Arguments = ''}''\<rparr>\<rparr>),
             OutputItemDone
               \<lparr>oi_Type = ''function_call'', oi_ID = ''fc-r-1'', oi_Role = [], oi_Content = [],
                oi_CallID = [], oi_Name = [], oi_Arguments = ''}'', oi_Status = ''in_progress''\<rparr>,
             OutputItemDone
               \<lparr>oi_Type = ''function_call'', oi_ID = ''fc-r-0'', oi_Role = [], oi_Content = [],
                oi_CallID = [], oi_Name = ''f'', oi_Arguments = ''{\"a\":1'',
                oi_Status = ''in_progress''\<rparr>,
             OutputItemDone
               \<lparr>oi_Type = ''message'', oi_ID = ''msg-r'', oi_Role = ''assistant'',
                oi_Content = [\<lparr>ci_Type = ''output_text'', ci_Text = ''Hi'',
                               ci_ImageURL = [], ci_Data = []\<rparr>],
                oi_CallID = [], oi_Name = [], oi_Arguments = [], oi_Status = ''completed''\<rparr>,
             ResponseCompleted ''resp-r'' ''completed'']"
    unfolding Let_def st by simp
  then show ?thesis
    using R l by simp
qed

text \<open>
  The order of the done events need not be the order of discovery: with two tool calls
  and a \<open>range\<close> that visits the later entry first, the done events come in the opposite
  order of the added events.
\<close>

theorem stream_sentinel_discovery_order_counterexample:
  "is_range_order rev
   \<and> added_tool_ids (fst (HandleStreamingResponse rev rev example_decode
        [''data: a'', ''data: b'', ''data: [DONE]''] None ''r'')) = [''fc-r-0'', ''fc-r-1'']
   \<and> done_tool_ids (fst (HandleStreamingResponse rev rev example_decode
        [''data: a'', ''data: b'', ''data: [DONE]''] None ''r'')) = [''fc-r-1'', ''fc-r-0'']"
  by (simp add: is_range_order_def stream_eval)

subsection \<open>Read errors\<close>




subsection \<open>Argument fragments of one tool call\<close>

text \<open>
  Claim C1 at a concrete stream. Two deltas of the same tool call carry the fragments
  \<open>{"a":1\<close> and \<open>}\<close>. The entry created for the first delta is stored under the
  counter, not under the key it is looked up with, so the second delta finds nothing and
  a second item is created: the fragments end in two items, none holding \<open>{"a":1}\<close>.
  This happens when both deltas carry the id \<open>call_1\<close> and when neither carries an id.
\<close>

theorem stream_tool_fragments_split:
  "map (\<lambda>i. (oi_ID i, oi_CallID i, oi_Arguments i))
     (sr_ToolCalls (snd (snd (HandleStreamingResponse (\<lambda>m. m) (\<lambda>m. m) example_decode
        [''data: A'', ''data: B'', ''data: [DONE]''] None ''r''))))
     = [(''fc-r-0'', ''call_1'', ''{\"a\":1''), (''fc-r-1'', ''call_1'', ''}'')]
   \<and> map (\<lambda>i. (oi_ID i, oi_CallID i, oi_Arguments i))
     (sr_ToolCalls (snd (snd (HandleStreamingResponse (\<lambda>m. m) (\<lambda>m. m) example_decode
        [''data: a'', ''data: b'', ''data: [DONE]''] None ''r''))))
     = [(''fc-r-0'', [], ''{\"a\":1''), (''fc-r-1'', [], ''}'')]"
  by (simp add: stream_eval)

section \<open>Properties of HandleWithWebSearch\<close>






text \<open>The inner loop records one call per tool call and never stops early.\<close>

lemma process_web_search_call_parse_failure:
  assumes "unmarshal (fn_Arguments (tc_Function tc)) = Inl err"
  shows "process_web_search_call unmarshal search (messages, calls, s) tc
           = (messages @ [zero_ChatMessage
                            \<lparr>cm_Role := ''tool'', cm_ToolCallID := tc_ID tc,
                             cm_Content := ContentString
                               (case fst (search s ''unknown'') of
                                  Inl e \<Rightarrow> ''Search failed: '' @ e
                                | Inr res \<Rightarrow> FormatResults res)\<rparr>],
              calls @ [\<lparr>wsc_ID = tc_ID tc, wsc_Query = ''unknown'',
                        wsc_Status = (case fst (search s ''unknown'') of
                                        Inl e \<Rightarrow> ''failed''
                                      | Inr res \<Rightarrow> ''completed'')\<rparr>],
              snd (search s ''unknown''))"
  using assms
  by (simp add: process_web_search_call_def parseQueryFromArguments_def split_beta Let_def
        split: sum.splits)






subsection \<open>The calls recorded and the messages added by the inner loop\<close>





subsection \<open>What the loop keeps\<close>


subsection \<open>An intercepted call\<close>






section \<open>Properties of MCPProvider.Search\<close>

lemma http_post_effect:
  "ms_sent (snd (http_post E req st)) = ms_sent st @ [req]"
  "ms_provider (snd (http_post E req st)) = ms_provider st"
  by (simp_all add: http_post_def split_beta)

text \<open>Without a cached session, \<open>ensureSession\<close> posts exactly the handshake.\<close>

lemma ensureSession_fresh:
  "mp_sessionID (ms_provider st) = [] \<Longrightarrow>
   ms_sent (snd (ensureSession E st)) = ms_sent st @ [InitializeRequest]"
  by (simp add: ensureSession_def split_beta http_post_effect split: sum.splits)

lemma sendMCPRequest_sent:
  "ms_sent (snd (sendMCPRequest E query st))
     = ms_sent st @ [tools_call_request (ms_provider st) query]"
  by (simp add: sendMCPRequest_def split_beta http_post_effect split: sum.splits)

lemma clearSession_effect:
  "mp_sessionID (ms_provider (clearSession st)) = []"
  "ms_sent (clearSession st) = ms_sent st"
  by (simp_all add: clearSession_def)


lemma sendMCPRequest_provider:
  "ms_provider (snd (sendMCPRequest E query st)) = ms_provider st"
  by (simp add: sendMCPRequest_def split_beta http_post_effect split: sum.splits)

text \<open>The loop makes at most two attempts.\<close>

lemma search_attempts_unroll:
  "search_attempts E q 0 st =
     (case attempt_body E q st of
        (Return r, st1) \<Rightarrow> (r, st1)
      | (Continue, st1) \<Rightarrow>
          (case attempt_body E q st1 of
             (Return r, st2) \<Rightarrow> (r, st2)
           | (Continue, st2) \<Rightarrow> (Inl ''failed after retry: session error'', st2)))"
  by (simp add: search_attempts.simps [of _ _ 0] search_attempts.simps [of _ _ "Suc 0"]
        search_attempts.simps [of _ _ "Suc (Suc 0)"] split: prod.splits loop_step.splits)

text \<open>
  An attempt that starts without a session posts the handshake. If that fails the
  attempt returns the error; otherwise it posts exactly one invocation, with the session
  the handshake gave.
\<close>

lemma attempt_body_fresh:
  assumes "mp_sessionID (ms_provider st) = []"
  shows "case fst (http_post E InitializeRequest st) of
           Inl err \<Rightarrow>
             attempt_body E query st
               = (Return (Inl (''failed to establish MCP session: failed to send request: '' @ err)),
                  snd (http_post E InitializeRequest st))
         | Inr h \<Rightarrow>
             ms_sent (snd (attempt_body E query st))
               = ms_sent st @ [InitializeRequest,
                               ToolsCallRequest (hr_session h) (mp_toolName (ms_provider st))
                                 (mp_queryParam (ms_provider st)) query]"
proof (cases "fst (http_post E InitializeRequest st)")
  case (Inl err)
  then have "ensureSession E st
               = (Some (''failed to send request: '' @ err), snd (http_post E InitializeRequest st))"
    using assms by (simp add: ensureSession_def split_beta)
  then show ?thesis
    using Inl by (simp add: attempt_body_def)
next
  case (Inr h)
  define st1 where "st1 = (snd (http_post E InitializeRequest st))
                            \<lparr>ms_provider := (ms_provider (snd (http_post E InitializeRequest st)))
                                               \<lparr>mp_sessionID := hr_session h\<rparr>\<rparr>"
  have e: "ensureSession E st = (None, st1)"
    using assms Inr by (simp add: ensureSession_def split_beta st1_def)
  have sent1: "ms_sent st1 = ms_sent st @ [InitializeRequest]"
    by (simp add: st1_def http_post_effect)
  have req1: "tools_call_request (ms_provider st1) query
                = ToolsCallRequest (hr_session h) (mp_toolName (ms_provider st))
                    (mp_queryParam (ms_provider st)) query"
    by (simp add: st1_def http_post_effect tools_call_request_def)
  obtain r2 st2 where s: "sendMCPRequest E query st1 = (r2, st2)"
    by (cases "sendMCPRequest E query st1")
  have sent2: "ms_sent st2 = ms_sent st1 @ [tools_call_request (ms_provider st1) query]"
    using sendMCPRequest_sent [of E query st1] by (simp add: s)
  have "ms_sent (snd (attempt_body E query st)) = ms_sent st2"
    by (simp add: attempt_body_def e s clearSession_effect Let_def
          split: sum.splits option.splits)
  then show ?thesis
    using Inr by (simp add: sent2 sent1 req1)
qed

text \<open>
  Claim C4, as the code has it. The client is configured and its first attempt gets a
  session and an invocation response with an error envelope. That invocation is the
  only request of the attempt after the session was ensured, and it leaves the cached
  session alone.

  If the code is \<open>-401\<close> or the message contains \<open>apikey\<close>, the cached session is cleared
  and one more handshake-plus-invoke attempt is made: the handshake is posted afresh;
  if it fails, \<open>Search\<close> returns that failure and nothing more is posted; if it goes
  through, exactly one more invocation is posted, carrying the session the fresh
  handshake gave. \<open>Search\<close> returns what that attempt returns, and the error
  \<open>failed after retry\<close> if the attempt ends in a session failure again.

  With any other code and message, \<open>Search\<close> returns the error of the envelope at once:
  the final state is the one right after the first invocation, so the session is not
  cleared and nothing is retried.
\<close>

theorem MCPProvider_Search_auth_retry:
  assumes "IsAvailable (ms_provider st)"
    and "ensureSession E st = (None, st1)"
    and "sendMCPRequest E query st1 = (Inr resp, st2)"
    and "mr_Error resp = Some e"
  shows "ms_sent st2 = ms_sent st1 @ [tools_call_request (ms_provider st1) query]
       \<and> ms_provider st2 = ms_provider st1
       \<and> (me_Code e = - 401 \<or> contains (me_Message e) ''apikey'' \<longrightarrow>
            (let st3 = clearSession st2;
                 retry = attempt_body E query st3;
                 handshake = http_post E InitializeRequest st3
             in mp_sessionID (ms_provider st3) = []
              \<and> MCPProvider_Search E query st
                  = ((case fst retry of
                        Return r \<Rightarrow> r
                      | Continue \<Rightarrow> Inl ''failed after retry: session error''),
                     snd retry)
              \<and> (case fst handshake of
                    Inl err \<Rightarrow>
                      MCPProvider_Search E query st
                        = (Inl (''failed to establish MCP session: failed to send request: ''
                                 @ err),
                           snd handshake)
                      \<and> ms_sent (snd handshake) = ms_sent st2 @ [InitializeRequest]
                  | Inr h \<Rightarrow>
                      ms_sent (snd (MCPProvider_Search E query st))
                        = ms_sent st2
                          @ [InitializeRequest,
                             ToolsCallRequest (hr_session h) (mp_toolName (ms_provider st2))
                               (mp_queryParam (ms_provider st2)) query])))
       \<and> (\<not> (me_Code e = - 401 \<or> contains (me_Message e) ''apikey'') \<longrightarrow>
            MCPProvider_Search E query st
              = (Inl (''search tool error: '' @ me_Message e @ '' (code: ''
                       @ show_int (me_Code e) @ '')''),
                 st2))"
proof -
  have sent2: "ms_sent st2 = ms_sent st1 @ [tools_call_request (ms_provider st1) query]"
    using sendMCPRequest_sent [of E query st1] by (simp add: assms(3))
  have prov2: "ms_provider st2 = ms_provider st1"
    using sendMCPRequest_provider [of E query st1] by (simp add: assms(3))
  have other: "MCPProvider_Search E query st
                 = (Inl (''search tool error: '' @ me_Message e @ '' (code: ''
                          @ show_int (me_Code e) @ '')''), st2)"
    if "\<not> (me_Code e = - 401 \<or> contains (me_Message e) ''apikey'')"
  proof -
    have "attempt_body E query st
            = (Return (Inl (''search tool error: '' @ me_Message e @ '' (code: ''
                             @ show_int (me_Code e) @ '')'')), st2)"
      using that assms(4) by (simp add: attempt_body_def assms(2,3))
    then show ?thesis
      using assms(1) by (simp add: MCPProvider_Search_def search_attempts_unroll)
  qed
  have auth:
    "let st3 = clearSession st2;
         retry = attempt_body E query st3;
         handshake = http_post E InitializeRequest st3
     in mp_sessionID (ms_provider st3) = []
      \<and> MCPProvider_Search E query st
          = ((case fst retry of
                Return r \<Rightarrow> r
              | Continue \<Rightarrow> Inl ''failed after retry: session error''),
             snd retry)
      \<and> (case fst handshake of
            Inl err \<Rightarrow>
              MCPProvider_Search E query st
                = (Inl (''failed to establish MCP session: failed to send request: '' @ err),
                   snd handshake)
              \<and> ms_sent (snd handshake) = ms_sent st2 @ [InitializeRequest]
          | Inr h \<Rightarrow>
              ms_sent (snd (MCPProvider_Search E query st))
                = ms_sent st2
                  @ [InitializeRequest,
                     ToolsCallRequest (hr_session h) (mp_toolName (ms_provider st2))
                       (mp_queryParam (ms_provider st2)) query])"
    if a: "me_Code e = - 401 \<or> contains (me_Message e) ''apikey''"
  proof -
    define st3 where "st3 = clearSession st2"
    obtain r4 st4 where retry: "attempt_body E query st3 = (r4, st4)"
      by (cases "attempt_body E query st3")
    have first: "attempt_body E query st = (Continue, st3)"
      using a assms(4) by (simp add: attempt_body_def assms(2,3) st3_def)
    have cleared: "mp_sessionID (ms_provider st3) = []"
      by (simp add: st3_def clearSession_effect)
    have result: "MCPProvider_Search E query st
                    = ((case r4 of Return r \<Rightarrow> r
                        | Continue \<Rightarrow> Inl ''failed after retry: session error''), st4)"
      using assms(1)
      by (cases r4) (simp_all add: MCPProvider_Search_def search_attempts_unroll first retry)
    have st3_facts: "mp_toolName (ms_provider st3) = mp_toolName (ms_provider st2)"
                    "mp_queryParam (ms_provider st3) = mp_queryParam (ms_provider st2)"
                    "ms_sent st3 = ms_sent st2"
      by (simp_all add: st3_def clearSession_def)
    have hs: "case fst (http_post E InitializeRequest st3) of
                Inl err \<Rightarrow>
                  MCPProvider_Search E query st
                    = (Inl (''failed to establish MCP session: failed to send request: '' @ err),
                       snd (http_post E InitializeRequest st3))
                  \<and> ms_sent (snd (http_post E InitializeRequest st3))
                      = ms_sent st2 @ [InitializeRequest]
              | Inr h \<Rightarrow>
                  ms_sent (snd (MCPProvider_Search E query st))
                    = ms_sent st2
                      @ [InitializeRequest,
                         ToolsCallRequest (hr_session h) (mp_toolName (ms_provider st2))
                           (mp_queryParam (ms_provider st2)) query]"
      using attempt_body_fresh [OF cleared, of E query]
      by (cases "fst (http_post E InitializeRequest st3)")
         (simp_all add: result retry st3_facts http_post_effect)
    show ?thesis
      unfolding Let_def st3_def [symmetric]
      using cleared result hs by (simp add: retry)
  qed
  show ?thesis
    using sent2 prov2 other auth by blast
qed

subsection \<open>Evaluation against the scripted server\<close>

lemma digit_chars:
  "char_of (48::nat) = CHR ''0''" "char_of (49::nat) = CHR ''1''" "char_of (50::nat) = CHR ''2''"
  "char_of (51::nat) = CHR ''3''" "char_of (52::nat) = CHR ''4''" "char_of (53::nat) = CHR ''5''"
  "char_of (54::nat) = CHR ''6''" "char_of (55::nat) = CHR ''7''" "char_of (56::nat) = CHR ''8''"
  "char_of (57::nat) = CHR ''9''"
  by code_simp+

lemma show_int_internal: "show_int (- 32000) = ''-32000''"
  by (simp add: show_int_def show_nat.simps digit_chars)

lemma scripted_post:
  "http_post scripted_env req \<lparr>ms_provider = p, ms_world = r # rs, ms_sent = sent\<rparr>
     = (Inr r, \<lparr>ms_provider = p, ms_world = rs, ms_sent = sent @ [req]\<rparr>)"
  by (simp add: http_post_def scripted_env_def)

lemma scripted_handshake:
  "mp_sessionID p = [] \<Longrightarrow>
   ensureSession scripted_env
     \<lparr>ms_provider = p, ms_world = handshake_response sid # rs, ms_sent = sent\<rparr>
     = (None, \<lparr>ms_provider = p\<lparr>mp_sessionID := sid\<rparr>, ms_world = rs,
               ms_sent = sent @ [InitializeRequest]\<rparr>)"
  by (simp add: ensureSession_def scripted_post handshake_response_def)

lemma scripted_bodies:
  "parseSSEResponse (''event:message'' @ [CHR 0x0A] @ ''data:'' @ ''auth'') = ''auth''"
  "parseSSEResponse (''event:message'' @ [CHR 0x0A] @ ''data:'' @ ''internal'') = ''internal''"
  "parseSSEResponse (''event:message'' @ [CHR 0x0A] @ ''data:'' @ ''ok'') = ''ok''"
  by (simp_all add: parseSSEResponse_def)

lemma scripted_unmarshal:
  "env_unmarshal_response scripted_env ''auth''
     = Inr \<lparr>mr_JSONRPC = ''2.0'', mr_Result = [],
            mr_Error = Some \<lparr>me_Code = - 401, me_Message = ''unauthorized''\<rparr>, mr_ID = 2\<rparr>"
  "env_unmarshal_response scripted_env ''internal''
     = Inr \<lparr>mr_JSONRPC = ''2.0'', mr_Result = [],
            mr_Error = Some \<lparr>me_Code = - 32000, me_Message = ''internal error''\<rparr>, mr_ID = 2\<rparr>"
  "env_unmarshal_response scripted_env ''ok''
     = Inr \<lparr>mr_JSONRPC = ''2.0'', mr_Result = ''result'', mr_Error = None, mr_ID = 2\<rparr>"
  by (simp_all add: scripted_env_def)

lemma scripted_call:
  assumes "parseSSEResponse (''event:message'' @ [CHR 0x0A] @ ''data:'' @ b) = b"
    and "env_unmarshal_response scripted_env b = Inr resp"
  shows "sendMCPRequest scripted_env q
           \<lparr>ms_provider = p, ms_world = body_response b # rs, ms_sent = sent\<rparr>
         = (Inr resp,
            \<lparr>ms_provider = p, ms_world = rs,
             ms_sent = sent @ [tools_call_request p q]\<rparr>)"
proof -
  have body: "hr_body (body_response b) = Inr (''event:message'' @ [CHR 0x0A] @ ''data:'' @ b)"
    by (simp add: body_response_def)
  show ?thesis
    unfolding sendMCPRequest_def scripted_post Let_def prod.case sum.case body assms
    by simp
qed

lemma scripted_result:
  "env_unmarshal_content scripted_env ''result''
     = Inr \<lparr>cres_Content = [\<lparr>ce_Type = ''text'', ce_Text = ''[]''\<rparr>], cres_IsError = False\<rparr>"
  "parseResults scripted_env q ''[]'' = Inr \<lparr>spr_Query = q, spr_Results = [], spr_Error = []\<rparr>"
  by (simp_all add: scripted_env_def parseResults_def)

lemma not_apikey:
  "\<not> contains ''unauthorized'' ''apikey''" "\<not> contains ''internal error'' ''apikey''"
  by simp_all

lemma scripted_attempt_auth:
  assumes "mp_sessionID p = []"
  shows "attempt_body scripted_env q
           \<lparr>ms_provider = p, ms_world = handshake_response sid # body_response ''auth'' # rs,
            ms_sent = sent\<rparr>
         = (Continue,
            \<lparr>ms_provider = p\<lparr>mp_sessionID := []\<rparr>, ms_world = rs,
             ms_sent = sent @ [InitializeRequest,
                               tools_call_request (p\<lparr>mp_sessionID := sid\<rparr>) q]\<rparr>)"
  by (simp add: attempt_body_def scripted_handshake [OF assms]
        scripted_call [OF scripted_bodies(1) scripted_unmarshal(1)] clearSession_def)

lemma scripted_attempt_internal:
  assumes "mp_sessionID p = []"
  shows "attempt_body scripted_env q
           \<lparr>ms_provider = p, ms_world = handshake_response sid # body_response ''internal'' # rs,
            ms_sent = sent\<rparr>
         = (Return (Inl ''search tool error: internal error (code: -32000)''),
            \<lparr>ms_provider = p\<lparr>mp_sessionID := sid\<rparr>, ms_world = rs,
             ms_sent = sent @ [InitializeRequest,
                               tools_call_request (p\<lparr>mp_sessionID := sid\<rparr>) q]\<rparr>)"
  by (simp add: attempt_body_def scripted_handshake [OF assms]
        scripted_call [OF scripted_bodies(2) scripted_unmarshal(2)] not_apikey show_int_internal)

lemma scripted_attempt_ok:
  assumes "mp_sessionID p = []"
  shows "attempt_body scripted_env q
           \<lparr>ms_provider = p, ms_world = handshake_response sid # body_response ''ok'' # rs,
            ms_sent = sent\<rparr>
         = (Return (Inr \<lparr>spr_Query = q, spr_Results = [], spr_Error = []\<rparr>),
            \<lparr>ms_provider = p\<lparr>mp_sessionID := sid\<rparr>, ms_world = rs,
             ms_sent = sent @ [InitializeRequest,
                               tools_call_request (p\<lparr>mp_sessionID := sid\<rparr>) q]\<rparr>)"
  by (simp add: attempt_body_def scripted_handshake [OF assms]
        scripted_call [OF scripted_bodies(3) scripted_unmarshal(3)] scripted_result)

theorem MCPProvider_Search_auth_retry_witness:
  "IsAvailable (ms_provider (example_mcp_state
      [handshake_response ''s1'', body_response ''auth'',
       handshake_response ''s2'', body_response ''ok'']))
   \<and> fst (MCPProvider_Search scripted_env ''go'' (example_mcp_state
      [handshake_response ''s1'', body_response ''auth'',
       handshake_response ''s2'', body_response ''ok'']))
       = Inr \<lparr>spr_Query = ''go'', spr_Results = [], spr_Error = []\<rparr>
   \<and> ms_sent (snd (MCPProvider_Search scripted_env ''go'' (example_mcp_state
      [handshake_response ''s1'', body_response ''auth'',
       handshake_response ''s2'', body_response ''ok''])))
       = [InitializeRequest,
          ToolsCallRequest ''s1'' ''webSearchPrime'' ''search_query'' ''go'',
          InitializeRequest,
          ToolsCallRequest ''s2'' ''webSearchPrime'' ''search_query'' ''go'']
   \<and> fst (MCPProvider_Search scripted_env ''go'' (example_mcp_state
      [handshake_response ''s1'', body_response ''internal'',
       handshake_response ''s2'', body_response ''ok'']))
       = Inl ''search tool error: internal error (code: -32000)''
   \<and> ms_sent (snd (MCPProvider_Search scripted_env ''go'' (example_mcp_state
      [handshake_response ''s1'', body_response ''internal'',
       handshake_response ''s2'', body_response ''ok''])))
       = [InitializeRequest,
          ToolsCallRequest ''s1'' ''webSearchPrime'' ''search_query'' ''go'']"
proof -
  define p1 where "p1 = example_provider\<lparr>mp_sessionID := ''s1''\<rparr>"
  define rest where "rest = [handshake_response ''s2'', body_response ''ok'']"
  define st where "st = (\<lambda>b. example_mcp_state (handshake_response ''s1'' # body_response b # rest))"
  define st1 where "st1 = (\<lambda>b.
      \<lparr>ms_provider = p1, ms_world = body_response b # rest, ms_sent = [InitializeRequest]\<rparr>)"
  define st2 where "st2 =
      \<lparr>ms_provider = p1, ms_world = rest,
       ms_sent = [InitializeRequest, tools_call_request p1 ''go'']\<rparr>"
  define resp where "resp = (\<lambda>e.
    \<lparr>mr_JSONRPC = ''2.0'', mr_Result = [], mr_Error = Some e, mr_ID = 2\<rparr>)"
  define e_auth where "e_auth = \<lparr>me_Code = - 401, me_Message = ''unauthorized''\<rparr>"
  define e_int where "e_int = \<lparr>me_Code = - 32000, me_Message = ''internal error''\<rparr>"
  have fresh: "mp_sessionID example_provider = []"
    by (simp add: example_provider_def)
  have avail: "IsAvailable (ms_provider (st b))" for b
    by (simp add: st_def example_mcp_state_def example_provider_def IsAvailable_def)
  have e: "ensureSession scripted_env (st b) = (None, st1 b)" for b
    unfolding st_def st1_def p1_def example_mcp_state_def
    by (simp add: scripted_handshake [OF fresh])
  have s_auth: "sendMCPRequest scripted_env ''go'' (st1 ''auth'') = (Inr (resp e_auth), st2)"
    unfolding st1_def st2_def resp_def e_auth_def
    by (simp add: scripted_call [OF scripted_bodies(1) scripted_unmarshal(1)])
  have s_int: "sendMCPRequest scripted_env ''go'' (st1 ''internal'') = (Inr (resp e_int), st2)"
    unfolding st1_def st2_def resp_def e_int_def
    by (simp add: scripted_call [OF scripted_bodies(2) scripted_unmarshal(2)])
  have err: "mr_Error (resp x) = Some x" for x
    by (simp add: resp_def)
  have is_auth: "me_Code e_auth = - 401 \<or> contains (me_Message e_auth) ''apikey''"
    by (simp add: e_auth_def)
  have not_auth: "\<not> (me_Code e_int = - 401 \<or> contains (me_Message e_int) ''apikey'')"
    by (simp add: e_int_def not_apikey)
  have reqs: "tools_call_request p1 ''go''
                = ToolsCallRequest ''s1'' ''webSearchPrime'' ''search_query'' ''go''"
             "tools_call_request (example_provider\<lparr>mp_sessionID := ''s2''\<rparr>) ''go''
                = ToolsCallRequest ''s2'' ''webSearchPrime'' ''search_query'' ''go''"
    by (simp_all add: tools_call_request_def p1_def example_provider_def)
  have cleared: "clearSession st2 =
      \<lparr>ms_provider = example_provider, ms_world = rest,
       ms_sent = [InitializeRequest, tools_call_request p1 ''go'']\<rparr>"
    by (simp add: st2_def clearSession_def p1_def example_provider_def)
  have retry: "attempt_body scripted_env ''go'' (clearSession st2)
                 = (Return (Inr \<lparr>spr_Query = ''go'', spr_Results = [], spr_Error = []\<rparr>),
                    \<lparr>ms_provider = example_provider\<lparr>mp_sessionID := ''s2''\<rparr>,
                     ms_world = [],
                     ms_sent = [InitializeRequest, tools_call_request p1 ''go'',
                                InitializeRequest,
                                tools_call_request (example_provider\<lparr>mp_sessionID := ''s2''\<rparr>)
                                  ''go'']\<rparr>)"
    unfolding cleared rest_def by (simp add: scripted_attempt_ok [OF fresh])
  from MCPProvider_Search_auth_retry [OF avail e s_auth err] is_auth
  have "let st3 = clearSession st2;
            retry = attempt_body scripted_env ''go'' st3
        in MCPProvider_Search scripted_env ''go'' (st ''auth'')
             = ((case fst retry of
                   Return r \<Rightarrow> r
                 | Continue \<Rightarrow> Inl ''failed after retry: session error''),
                snd retry)"
    by (simp add: Let_def)
  then have run_auth:
    "MCPProvider_Search scripted_env ''go'' (st ''auth'')
       = (Inr \<lparr>spr_Query = ''go'', spr_Results = [], spr_Error = []\<rparr>,
          \<lparr>ms_provider = example_provider\<lparr>mp_sessionID := ''s2''\<rparr>,
           ms_world = [],
           ms_sent = [InitializeRequest, tools_call_request p1 ''go'',
                      InitializeRequest,
                      tools_call_request (example_provider\<lparr>mp_sessionID := ''s2''\<rparr>)
                        ''go'']\<rparr>)"
    unfolding Let_def retry by simp
  from MCPProvider_Search_auth_retry [OF avail e s_int err] not_auth
  have run_int:
    "MCPProvider_Search scripted_env ''go'' (st ''internal'')
       = (Inl (''search tool error: '' @ me_Message e_int @ '' (code: ''
                @ show_int (me_Code e_int) @ '')''), st2)"
    by blast
  have msg: "''search tool error: '' @ me_Message e_int @ '' (code: ''
               @ show_int (me_Code e_int) @ '')''
             = ''search tool error: internal error (code: -32000)''"
    by (simp add: e_int_def show_int_internal)
  have unfold_st: "example_mcp_state
      [handshake_response ''s1'', body_response b,
       handshake_response ''s2'', body_response ''ok''] = st b" for b
    by (simp add: st_def rest_def)
  show ?thesis
    unfolding unfold_st run_auth run_int msg
    using avail [of "''auth''"] by (simp add: reqs st2_def)
qed

text \<open>
  A negative error code other than \<open>-401\<close>, with a message that does not contain
  \<open>apikey\<close>, is not taken as a session failure: the error is returned after the first
  invocation, the session stays cached and nothing is retried, although the server
  would have answered a second handshake and invocation.
\<close>

theorem MCPProvider_Search_negative_code_counterexample:
  "MCPProvider_Search scripted_env ''go'' (example_mcp_state
      [handshake_response ''s1'', body_response ''internal'',
       handshake_response ''s2'', body_response ''ok''])
     = (Inl ''search tool error: internal error (code: -32000)'',
        \<lparr>ms_provider = example_provider\<lparr>mp_sessionID := ''s1''\<rparr>,
         ms_world = [handshake_response ''s2'', body_response ''ok''],
         ms_sent = [InitializeRequest,
                    ToolsCallRequest ''s1'' ''webSearchPrime'' ''search_query'' ''go'']\<rparr>)"
proof -
  have fresh: "mp_sessionID example_provider = []"
    by (simp add: example_provider_def)
  have avail: "IsAvailable example_provider"
    by (simp add: example_provider_def IsAvailable_def)
  have req: "tools_call_request (example_provider\<lparr>mp_sessionID := ''s1''\<rparr>) ''go''
               = ToolsCallRequest ''s1'' ''webSearchPrime'' ''search_query'' ''go''"
    by (simp add: tools_call_request_def example_provider_def)
  show ?thesis
    unfolding MCPProvider_Search_def example_mcp_state_def search_attempts_unroll
    using avail by (simp add: scripted_attempt_internal [OF fresh] req)
qed


end
